theory Spec2Isabelle
  imports Complex_Main
begin

section \<open>Python values, exceptions and builtins used by the sources\<close>

text \<open>
  The sources pass passports, leases and token payloads around as dictionaries
  of arbitrary values. The values that can reach them (literals of the callers and
  whatever \<^verbatim>\<open>json.loads\<close> produces) are modelled by \<open>pyval\<close>. A Python \<^verbatim>\<open>str\<close>
  is a \<open>string\<close> whose characters are the code points 0..255; a \<^verbatim>\<open>float\<close> is
  either finite (a rational), an infinity or NaN. A dictionary value is the list of
  its items in insertion order, with keys that are strings or integers.
\<close>

datatype pyfloat = FFin rat | FPosInf | FNegInf | FNaN

datatype pykey = KStr string | KInt int

datatype pyval =
    PNone
  | PBool bool
  | PInt int
  | PFloat pyfloat
  | PStr string
  | PList "pyval list"
  | PDict "(pykey \<times> pyval) list"

text \<open>The exceptions raised on the modelled paths.\<close>

datatype exn =
    KeyError
  | ValueError
  | TypeError
  | OverflowError
  | AttributeError
  | BadSignatureError
  | HTTPError
  | FileNotFoundError
  | IsADirectoryError
  | FileExistsError
  | NotADirectoryError
  | SqlError
  | HTTPException400

text \<open>A dictionary with string keys, read with \<^verbatim>\<open>d.get(k)\<close>, \<^verbatim>\<open>d.get(k, default)\<close>
  and \<^verbatim>\<open>d[k]\<close>.\<close>

type_synonym pydict = "string \<rightharpoonup> pyval"

definition dict_get :: "pydict \<Rightarrow> string \<Rightarrow> pyval" where
  "dict_get d k = (case d k of None \<Rightarrow> PNone | Some v \<Rightarrow> v)"

definition dict_get_default :: "pydict \<Rightarrow> string \<Rightarrow> pyval \<Rightarrow> pyval" where
  "dict_get_default d k dflt = (case d k of None \<Rightarrow> dflt | Some v \<Rightarrow> v)"

definition dict_index :: "pydict \<Rightarrow> string \<Rightarrow> exn + pyval" where
  "dict_index d k = (case d k of None \<Rightarrow> Inl KeyError | Some v \<Rightarrow> Inr v)"

text \<open>Truth value of an object (\<^verbatim>\<open>if x:\<close>, \<^verbatim>\<open>not x\<close>).\<close>

fun py_truthy :: "pyval \<Rightarrow> bool" where
  "py_truthy PNone = False"
| "py_truthy (PBool b) = b"
| "py_truthy (PInt i) = (i \<noteq> 0)"
| "py_truthy (PFloat (FFin q)) = (q \<noteq> 0)"
| "py_truthy (PFloat _) = True"
| "py_truthy (PStr s) = (s \<noteq> [])"
| "py_truthy (PList xs) = (xs \<noteq> [])"
| "py_truthy (PDict kvs) = (kvs \<noteq> [])"

text \<open>Lists and dictionaries are unhashable: using one as a set member or dictionary
  key raises \<^verbatim>\<open>TypeError\<close>.\<close>

fun py_hashable :: "pyval \<Rightarrow> bool" where
  "py_hashable (PList _) = False"
| "py_hashable (PDict _) = False"
| "py_hashable _ = True"

text \<open>Set and dictionary lookups compare with \<^verbatim>\<open>==\<close>, under which \<^verbatim>\<open>True == 1 == 1.0\<close>.
  \<open>py_key\<close> maps a hashable value to the representative of its equality class.\<close>

fun py_key :: "pyval \<Rightarrow> pyval" where
  "py_key (PBool b) = PInt (if b then 1 else 0)"
| "py_key (PFloat (FFin q)) = (if q = of_int \<lfloor>q\<rfloor> then PInt \<lfloor>q\<rfloor> else PFloat (FFin q))"
| "py_key v = v"

subsection \<open>The builtin \<^verbatim>\<open>int()\<close>\<close>

definition is_digit :: "char \<Rightarrow> bool" where
  "is_digit c = (48 \<le> (of_char c :: nat) \<and> (of_char c :: nat) \<le> 57)"

definition digit_val :: "char \<Rightarrow> nat" where
  "digit_val c = of_char c - 48"

definition is_space :: "char \<Rightarrow> bool" where
  "is_space c = (let n = (of_char c :: nat) in
     (9 \<le> n \<and> n \<le> 13) \<or> (28 \<le> n \<and> n \<le> 32) \<or> n = 133 \<or> n = 160)"

text \<open>Decimal digits, with single underscores allowed between digits. The limit of
  the interpreter on the number of digits of such a string is left out.\<close>

fun parse_digits :: "bool \<Rightarrow> nat \<Rightarrow> string \<Rightarrow> nat option" where
  "parse_digits prev acc [] = (if prev then Some acc else None)"
| "parse_digits prev acc (c # cs) =
     (if is_digit c then parse_digits True (10 * acc + digit_val c) cs
      else if c = CHR ''_'' \<and> prev then parse_digits False acc cs
      else None)"

definition strip_space :: "string \<Rightarrow> string" where
  "strip_space s = rev (dropWhile is_space (rev (dropWhile is_space s)))"

definition str_to_int :: "string \<Rightarrow> int option" where
  "str_to_int s =
     (case strip_space s of
        [] \<Rightarrow> None
      | c # cs \<Rightarrow>
          if c = CHR ''-'' then map_option (\<lambda>n. - int n) (parse_digits False 0 cs)
          else if c = CHR ''+'' then map_option int (parse_digits False 0 cs)
          else map_option int (parse_digits False 0 (c # cs)))"

text \<open>Truncation towards zero, as \<^verbatim>\<open>int(x)\<close> does for a finite float.\<close>

definition trunc_rat :: "rat \<Rightarrow> int" where
  "trunc_rat q = (if 0 \<le> q then \<lfloor>q\<rfloor> else \<lceil>q\<rceil>)"

fun py_int :: "pyval \<Rightarrow> exn + int" where
  "py_int PNone = Inl TypeError"
| "py_int (PBool b) = Inr (if b then 1 else 0)"
| "py_int (PInt i) = Inr i"
| "py_int (PFloat (FFin q)) = Inr (trunc_rat q)"
| "py_int (PFloat FPosInf) = Inl OverflowError"
| "py_int (PFloat FNegInf) = Inl OverflowError"
| "py_int (PFloat FNaN) = Inl ValueError"
| "py_int (PStr s) = (case str_to_int s of None \<Rightarrow> Inl ValueError | Some i \<Rightarrow> Inr i)"
| "py_int (PList _) = Inl TypeError"
| "py_int (PDict _) = Inl TypeError"

text \<open>The comparison \<^verbatim>\<open>x < n\<close> of an arbitrary value with an integer.\<close>

fun py_lt_int :: "pyval \<Rightarrow> int \<Rightarrow> exn + bool" where
  "py_lt_int (PBool b) n = Inr ((if b then 1 else 0) < n)"
| "py_lt_int (PInt i) n = Inr (i < n)"
| "py_lt_int (PFloat (FFin q)) n = Inr (q < of_int n)"
| "py_lt_int (PFloat FPosInf) n = Inr False"
| "py_lt_int (PFloat FNegInf) n = Inr True"
| "py_lt_int (PFloat FNaN) n = Inr False"
| "py_lt_int _ n = Inl TypeError"

section \<open>Capability leases (tokens.py)\<close>

text \<open>
  The module state: the set \<^verbatim>\<open>_USED_LEASES\<close> and the dictionary \<^verbatim>\<open>_ACTIVE_LEASES\<close>
  (in insertion order). Each function runs its critical sections one after the other;
  the model is of one call at a time. The clock readings \<^verbatim>\<open>int(time.time())\<close> and the
  result of \<^verbatim>\<open>secrets.token_hex(16)\<close> are inputs.
  The dictionary stored in \<^verbatim>\<open>_ACTIVE_LEASES\<close> is the object that
  \<open>issue_capability_lease\<close> returns, so marking it used also changes the caller's copy;
  \<open>lease_valid\<close> never reads the field \<^verbatim>\<open>used\<close>, and the model keeps the two apart.
\<close>

record lease_state =
  used_leases :: "pyval set"
  active_leases :: "(pyval \<times> pydict) list"

definition active_has :: "(pyval \<times> pydict) list \<Rightarrow> pyval \<Rightarrow> bool" where
  "active_has al k = (k \<in> fst ` set al)"

fun active_store :: "(pyval \<times> pydict) list \<Rightarrow> pyval \<Rightarrow> pydict \<Rightarrow> (pyval \<times> pydict) list" where
  "active_store [] k v = [(k, v)]"
| "active_store ((k', v') # al) k v =
     (if k' = k then (k, v) # al else (k', v') # active_store al k v)"

definition active_delete :: "(pyval \<times> pydict) list \<Rightarrow> pyval \<Rightarrow> (pyval \<times> pydict) list" where
  "active_delete al k = filter (\<lambda>kv. fst kv \<noteq> k) al"

definition active_mark_used :: "(pyval \<times> pydict) list \<Rightarrow> pyval \<Rightarrow> (pyval \<times> pydict) list" where
  "active_mark_used al k =
     map (\<lambda>kv. if fst kv = k then (fst kv, (snd kv)(''used'' \<mapsto> PBool True)) else kv) al"

definition issue_capability_lease ::
  "lease_state \<Rightarrow> string \<Rightarrow> string \<Rightarrow> string \<Rightarrow> int \<Rightarrow> string \<Rightarrow> int \<Rightarrow> int
     \<Rightarrow> pydict \<times> lease_state" where
  "issue_capability_lease st user_id action_id scope ttl_s token_hex now1 now2 =
     (let lease_id = token_hex;
          expv = now1 + ttl_s;
          lease = [''lease_id'' \<mapsto> PStr lease_id,
                   ''user_id'' \<mapsto> PStr user_id,
                   ''action_id'' \<mapsto> PStr action_id,
                   ''scope'' \<mapsto> PStr scope,
                   ''exp'' \<mapsto> PInt expv,
                   ''issued_at'' \<mapsto> PInt now2,
                   ''used'' \<mapsto> PBool False]
      in (lease, st\<lparr>active_leases := active_store (active_leases st) (PStr lease_id) lease\<rparr>))"

definition lease_valid ::
  "lease_state \<Rightarrow> pydict \<Rightarrow> string \<Rightarrow> bool \<Rightarrow> int \<Rightarrow> (exn + bool) \<times> lease_state" where
  "lease_valid st lease needed_scope consume now =
     (let lease_id = dict_get lease ''lease_id'' in
      if \<not> py_truthy lease_id then (Inr False, st)
      else if \<not> py_hashable lease_id then (Inl TypeError, st)
      else if py_key lease_id \<in> used_leases st then (Inr False, st)
      else
        case py_int (dict_get_default lease ''exp'' (PInt 0)) of
          Inl e \<Rightarrow> (Inl e, st)
        | Inr expv \<Rightarrow>
            if now > expv then (Inr False, st)
            else if dict_get lease ''scope'' \<noteq> PStr needed_scope then (Inr False, st)
            else if consume then
              (if py_key lease_id \<in> used_leases st then (Inr False, st)
               else (Inr True,
                     st\<lparr>used_leases := insert (py_key lease_id) (used_leases st),
                        active_leases :=
                          (if active_has (active_leases st) (py_key lease_id)
                           then active_mark_used (active_leases st) (py_key lease_id)
                           else active_leases st)\<rparr>))
            else (Inr True, st))"

definition revoke_lease :: "lease_state \<Rightarrow> string \<Rightarrow> bool \<times> lease_state" where
  "revoke_lease st lease_id =
     (True,
      st\<lparr>active_leases :=
           (if active_has (active_leases st) (PStr lease_id)
            then active_delete (active_leases st) (PStr lease_id)
            else active_leases st),
         used_leases := insert (PStr lease_id) (used_leases st)\<rparr>)"

definition get_lease_status :: "lease_state \<Rightarrow> string \<Rightarrow> pydict option" where
  "get_lease_status st lease_id = map_of (active_leases st) (PStr lease_id)"

fun expired_ids :: "(pyval \<times> pydict) list \<Rightarrow> int \<Rightarrow> exn + pyval list" where
  "expired_ids [] now = Inr []"
| "expired_ids ((lid, lease) # al) now =
     (case py_lt_int (dict_get_default lease ''exp'' (PInt 0)) now of
        Inl e \<Rightarrow> Inl e
      | Inr b \<Rightarrow>
          (case expired_ids al now of
             Inl e \<Rightarrow> Inl e
           | Inr ids \<Rightarrow> Inr (if b then lid # ids else ids)))"

definition cleanup_expired_leases :: "lease_state \<Rightarrow> int \<Rightarrow> (exn + int) \<times> lease_state" where
  "cleanup_expired_leases st now =
     (case expired_ids (active_leases st) now of
        Inl e \<Rightarrow> (Inl e, st)
      | Inr ids \<Rightarrow>
          (Inr (int (length ids)),
           st\<lparr>active_leases := fold (\<lambda>lid al. active_delete al lid) ids (active_leases st)\<rparr>))"

definition get_active_lease_count :: "lease_state \<Rightarrow> int" where
  "get_active_lease_count st = int (length (active_leases st))"

text \<open>Any later activity of the module is a sequence of calls of its functions.\<close>

datatype lease_op =
    OpIssue string string string int string int int
  | OpValid pydict string bool int
  | OpRevoke string
  | OpStatus string
  | OpCleanup int

fun lease_step :: "lease_state \<Rightarrow> lease_op \<Rightarrow> lease_state" where
  "lease_step st (OpIssue u a s ttl tok n1 n2) = snd (issue_capability_lease st u a s ttl tok n1 n2)"
| "lease_step st (OpValid l s c now) = snd (lease_valid st l s c now)"
| "lease_step st (OpRevoke lid) = snd (revoke_lease st lid)"
| "lease_step st (OpStatus lid) = st"
| "lease_step st (OpCleanup now) = snd (cleanup_expired_leases st now)"

definition lease_run :: "lease_state \<Rightarrow> lease_op list \<Rightarrow> lease_state" where
  "lease_run st ops = foldl lease_step st ops"

definition lease_init :: lease_state where
  "lease_init = \<lparr>used_leases = {}, active_leases = []\<rparr>"

text \<open>The scenario of the replay tests: a lease for scope \<^verbatim>\<open>tool:x\<close> issued at second 100
  for 30 seconds into the empty module state.\<close>

definition demo_lease :: pydict where
  "demo_lease = fst (issue_capability_lease lease_init ''u'' ''a'' ''tool:x'' 30
                       ''0123456789abcdef0123456789abcdef'' 100 100)"

definition demo_state :: lease_state where
  "demo_state = snd (issue_capability_lease lease_init ''u'' ''a'' ''tool:x'' 30
                       ''0123456789abcdef0123456789abcdef'' 100 100)"


section \<open>Library functions taken as parameters\<close>

text \<open>
  The sources call PyNaCl (Ed25519), \<^verbatim>\<open>hmac\<close>/\<^verbatim>\<open>hashlib\<close>, \<^verbatim>\<open>base64\<close>, \<^verbatim>\<open>json.loads\<close>, the
  SQLite parameter binding and the \<^verbatim>\<open>repr\<close> of a float. None of them is code of this
  repository; they are the fields of a record that every modelled function receives.
  Byte strings are \<open>string\<close>s (one \<open>char\<close> per byte). A decoder returns \<open>None\<close> where
  the library raises \<^verbatim>\<open>binascii.Error\<close> or \<^verbatim>\<open>JSONDecodeError\<close> (both are \<^verbatim>\<open>ValueError\<close>s).
\<close>

datatype detail =
    InvalidTokenFormat
  | B64Error string
  | NotAscii
  | SigLength
  | BadSig
  | JsonError string

record lib =
  float_repr :: "rat \<Rightarrow> string"
  hmac_sha256_hex :: "string \<Rightarrow> string \<Rightarrow> string"
  sha256_hex :: "string \<Rightarrow> string"
  ed_public :: "string \<Rightarrow> string"
  ed_sign :: "string \<Rightarrow> string \<Rightarrow> string"
  ed_check :: "string \<Rightarrow> string \<Rightarrow> string \<Rightarrow> bool"
  b64encode :: "string \<Rightarrow> string"
  b64decode :: "string \<Rightarrow> string option"
  urlsafe_b64encode :: "string \<Rightarrow> string"
  urlsafe_b64decode :: "string \<Rightarrow> string option"
  json_loads :: "string \<Rightarrow> pyval option"
  sql_text :: "pyval \<Rightarrow> string option"
  error_text :: "detail \<Rightarrow> string"

section \<open>Strings, bytes and canonical JSON\<close>

definition is_ascii :: "string \<Rightarrow> bool" where
  "is_ascii s = list_all (\<lambda>c. (of_char c :: nat) < 128) s"

text \<open>\<^verbatim>\<open>str.encode("utf-8")\<close> on code points below 256.\<close>

definition utf8_char :: "char \<Rightarrow> string" where
  "utf8_char c = (let n = (of_char c :: nat) in
     if n < 128 then [c] else [char_of (192 + n div 64), char_of (128 + n mod 64)])"

definition utf8_encode :: "string \<Rightarrow> string" where
  "utf8_encode s = concat (map utf8_char s)"

definition hex_digit :: "nat \<Rightarrow> char" where
  "hex_digit n = (if n < 10 then char_of (48 + n) else char_of (87 + n))"

function show_nat :: "nat \<Rightarrow> string" where
  "show_nat n = (if n < 10 then [char_of (48 + n)]
                 else show_nat (n div 10) @ [char_of (48 + n mod 10)])"
  by pat_completeness auto
termination
  by (relation "measure id") auto

declare show_nat.simps [simp del]

definition show_int :: "int \<Rightarrow> string" where
  "show_int i = (if i < 0 then CHR ''-'' # show_nat (nat (- i)) else show_nat (nat i))"

text \<open>String escaping of the encoder with \<^verbatim>\<open>ensure_ascii=True\<close>: the quote, the backslash
  and every character outside \<^verbatim>\<open>' '..'~'\<close> are escaped.\<close>

definition json_escape_char :: "char \<Rightarrow> string" where
  "json_escape_char c = (let n = (of_char c :: nat) in
     if n = 34 then [CHR 0x5C, CHR 0x22]
     else if n = 92 then [CHR 0x5C, CHR 0x5C]
     else if n = 10 then [CHR 0x5C, CHR ''n'']
     else if n = 13 then [CHR 0x5C, CHR ''r'']
     else if n = 9 then [CHR 0x5C, CHR ''t'']
     else if n = 8 then [CHR 0x5C, CHR ''b'']
     else if n = 12 then [CHR 0x5C, CHR ''f'']
     else if n < 32 \<or> 126 < n then
       [CHR 0x5C, CHR ''u'', CHR ''0'', CHR ''0'', hex_digit (n div 16), hex_digit (n mod 16)]
     else [c])"

definition json_str :: "string \<Rightarrow> string" where
  "json_str s = CHR 0x22 # concat (map json_escape_char s) @ [CHR 0x22]"

text \<open>With \<^verbatim>\<open>sort_keys=True\<close> the items are sorted by key before anything is written.
  Keys of two types do not compare: sorting raises \<^verbatim>\<open>TypeError\<close>. Afterwards an integer
  key is written as the string of its decimal digits.\<close>

fun is_KStr :: "pykey \<Rightarrow> bool" where
  "is_KStr (KStr _) = True"
| "is_KStr (KInt _) = False"

definition keys_sortable :: "pykey list \<Rightarrow> bool" where
  "keys_sortable ks = (length ks \<le> 1 \<or> list_all is_KStr ks \<or> list_all (\<lambda>k. \<not> is_KStr k) ks)"

fun str_lt :: "string \<Rightarrow> string \<Rightarrow> bool" where
  "str_lt [] [] = False"
| "str_lt [] (b # bs) = True"
| "str_lt (a # as) [] = False"
| "str_lt (a # as) (b # bs) =
     ((of_char a :: nat) < of_char b \<or> (a = b \<and> str_lt as bs))"

fun key_lt :: "pykey \<Rightarrow> pykey \<Rightarrow> bool" where
  "key_lt (KStr a) (KStr b) = str_lt a b"
| "key_lt (KInt a) (KInt b) = (a < b)"
| "key_lt _ _ = False"

fun insort_item :: "pykey \<times> 'a \<Rightarrow> (pykey \<times> 'a) list \<Rightarrow> (pykey \<times> 'a) list" where
  "insort_item x [] = [x]"
| "insort_item x (y # ys) =
     (if key_lt (fst x) (fst y) then x # y # ys else y # insort_item x ys)"

definition sort_items :: "(pykey \<times> 'a) list \<Rightarrow> (pykey \<times> 'a) list" where
  "sort_items xs = foldr insort_item xs []"

fun json_key :: "pykey \<Rightarrow> string" where
  "json_key (KStr s) = json_str s"
| "json_key (KInt i) = json_str (show_int i)"

fun join_comma :: "string list \<Rightarrow> string" where
  "join_comma [] = []"
| "join_comma [s] = s"
| "join_comma (s # t # ss) = s @ '','' @ join_comma (t # ss)"

fun collect :: "(exn + 'a) list \<Rightarrow> exn + 'a list" where
  "collect [] = Inr []"
| "collect (x # xs) =
     (case x of
        Inl e \<Rightarrow> Inl e
      | Inr v \<Rightarrow> (case collect xs of Inl e \<Rightarrow> Inl e | Inr vs \<Rightarrow> Inr (v # vs)))"

definition with_key :: "pykey \<Rightarrow> exn + string \<Rightarrow> exn + (pykey \<times> string)" where
  "with_key k r = (case r of Inl e \<Rightarrow> Inl e | Inr s \<Rightarrow> Inr (k, s))"

fun json_dumps :: "lib \<Rightarrow> pyval \<Rightarrow> exn + string" where
  "json_dumps L PNone = Inr ''null''"
| "json_dumps L (PBool b) = Inr (if b then ''true'' else ''false'')"
| "json_dumps L (PInt i) = Inr (show_int i)"
| "json_dumps L (PFloat (FFin q)) = Inr (float_repr L q)"
| "json_dumps L (PFloat FPosInf) = Inr ''Infinity''"
| "json_dumps L (PFloat FNegInf) = Inr ''-Infinity''"
| "json_dumps L (PFloat FNaN) = Inr ''NaN''"
| "json_dumps L (PStr s) = Inr (json_str s)"
| "json_dumps L (PList xs) =
     (case collect (map (json_dumps L) xs) of
        Inl e \<Rightarrow> Inl e
      | Inr ss \<Rightarrow> Inr (''['' @ join_comma ss @ '']''))"
| "json_dumps L (PDict kvs) =
     (if \<not> keys_sortable (map fst kvs) then Inl TypeError
      else
        case collect (map (\<lambda>(k, v). with_key k (json_dumps L v)) kvs) of
          Inl e \<Rightarrow> Inl e
        | Inr items \<Rightarrow>
            Inr (''{'' @ join_comma (map (\<lambda>(k, s). json_key k @ '':'' @ s) (sort_items items))
                 @ ''}''))"

text \<open>Reading a key of a decoded JSON value: \<^verbatim>\<open>v.get(k, default)\<close> exists on dictionaries
  only.\<close>

fun pv_get :: "pyval \<Rightarrow> string \<Rightarrow> pyval \<Rightarrow> exn + pyval" where
  "pv_get (PDict kvs) k dflt = Inr (case map_of kvs (KStr k) of None \<Rightarrow> dflt | Some v \<Rightarrow> v)"
| "pv_get _ k dflt = Inl AttributeError"

section \<open>Authy service: configuration, storage.py and crypto.py\<close>

text \<open>The process environment (\<^verbatim>\<open>os.getenv\<close>) maps variable names to strings.\<close>

type_synonym environ = "string \<rightharpoonup> string"

definition getenv_default :: "environ \<Rightarrow> string \<Rightarrow> string \<Rightarrow> string" where
  "getenv_default env k dflt = (case env k of None \<Rightarrow> dflt | Some v \<Rightarrow> v)"

definition ISSUER :: "environ \<Rightarrow> string" where
  "ISSUER env = getenv_default env ''ISSUER'' ''did:ismx:public''"

definition METRICS_SECRET :: "environ \<Rightarrow> string" where
  "METRICS_SECRET env =
     getenv_default env ''METRICS_SECRET'' (''please_change_me_'' @ replicate 32 (CHR ''0''))"


subsection \<open>The key of the metrics commitment (storage.py, \<^verbatim>\<open>hmac_metrics\<close>)\<close>

definition lower_char :: "char \<Rightarrow> char" where
  "lower_char c = (let n = (of_char c :: nat) in
     if (65 \<le> n \<and> n \<le> 90) \<or> (192 \<le> n \<and> n \<le> 222 \<and> n \<noteq> 215) then char_of (n + 32) else c)"

definition str_lower :: "string \<Rightarrow> string" where
  "str_lower s = map lower_char s"

definition str_strip :: "char \<Rightarrow> string \<Rightarrow> string" where
  "str_strip x s = rev (dropWhile (\<lambda>c. c = x) (rev (dropWhile (\<lambda>c. c = x) s)))"

definition str_remove :: "char \<Rightarrow> string \<Rightarrow> string" where
  "str_remove x s = filter (\<lambda>c. c \<noteq> x) s"

definition is_lower_hex :: "char \<Rightarrow> bool" where
  "is_lower_hex c = (c \<in> set ''0123456789abcdef'')"

definition hex_val :: "char \<Rightarrow> nat option" where
  "hex_val c = (let n = (of_char c :: nat) in
     if 48 \<le> n \<and> n \<le> 57 then Some (n - 48)
     else if 97 \<le> n \<and> n \<le> 102 then Some (n - 87)
     else if 65 \<le> n \<and> n \<le> 70 then Some (n - 55)
     else None)"

definition is_ascii_space :: "char \<Rightarrow> bool" where
  "is_ascii_space c = (let n = (of_char c :: nat) in (9 \<le> n \<and> n \<le> 13) \<or> n = 32)"

text \<open>\<^verbatim>\<open>bytes.fromhex\<close>: pairs of hexadecimal digits, white space allowed between pairs;
  anything else, a single trailing digit included, raises \<^verbatim>\<open>ValueError\<close> (\<open>None\<close>).\<close>

fun fromhex :: "string \<Rightarrow> string option" where
  "fromhex [] = Some []"
| "fromhex [c] = (if is_ascii_space c then Some [] else None)"
| "fromhex (c # d # ds) =
     (if is_ascii_space c then fromhex (d # ds)
      else
        case hex_val c of
          None \<Rightarrow> None
        | Some a \<Rightarrow>
            (case hex_val d of
               None \<Rightarrow> None
             | Some b \<Rightarrow> map_option ((#) (char_of (16 * a + b))) (fromhex ds)))"

definition metrics_key :: "string \<Rightarrow> exn + string" where
  "metrics_key secret =
     (if list_all is_lower_hex (str_strip (CHR ''x'') (str_lower secret))
         \<and> length (str_remove (CHR ''x'') secret) \<ge> 32
      then (case fromhex secret of None \<Rightarrow> Inl ValueError | Some b \<Rightarrow> Inr b)
      else Inr (utf8_encode secret))"

definition hmac_metrics :: "lib \<Rightarrow> string \<Rightarrow> pyval \<Rightarrow> exn + string" where
  "hmac_metrics L secret payload_dict =
     (case json_dumps L payload_dict of
        Inl e \<Rightarrow> Inl e
      | Inr js \<Rightarrow>
          (case metrics_key secret of
             Inl e \<Rightarrow> Inl e
           | Inr key \<Rightarrow> Inr (hmac_sha256_hex L key (utf8_encode js))))"

subsection \<open>The ledger (storage.py)\<close>

record revocation =
  revoked_at :: int
  rev_reason :: "string option"
  by_user :: "string option"

record authy_state =
  passports :: "string \<rightharpoonup> (pyval \<times> string)"
  revocations :: "string \<rightharpoonup> revocation"

definition save_passport :: "authy_state \<Rightarrow> string \<Rightarrow> pyval \<Rightarrow> string \<Rightarrow> authy_state" where
  "save_passport st jti rec sig_b64 = st\<lparr>passports := (passports st)(jti \<mapsto> (rec, sig_b64))\<rparr>"

text \<open>The argument of \<^verbatim>\<open>is_revoked\<close> and \<^verbatim>\<open>revoke_jti\<close> is bound to an SQL parameter and
  compared with the \<^verbatim>\<open>TEXT\<close> key of the table; a value that cannot be bound raises.\<close>

definition is_revoked :: "lib \<Rightarrow> authy_state \<Rightarrow> pyval \<Rightarrow> exn + bool" where
  "is_revoked L st jti =
     (case sql_text L jti of
        None \<Rightarrow> Inl SqlError
      | Some k \<Rightarrow> Inr (revocations st k \<noteq> None))"

definition revoke_jti ::
  "lib \<Rightarrow> authy_state \<Rightarrow> pyval \<Rightarrow> string option \<Rightarrow> string option \<Rightarrow> int \<Rightarrow> exn + authy_state" where
  "revoke_jti L st jti reason by now =
     (case sql_text L jti of
        None \<Rightarrow> Inl SqlError
      | Some k \<Rightarrow>
          Inr (st\<lparr>revocations :=
                 (revocations st)(k \<mapsto> \<lparr>revoked_at = now, rev_reason = reason, by_user = by\<rparr>)\<rparr>))"

subsection \<open>Keys and compact tokens (crypto.py)\<close>

definition rstrip_eq :: "string \<Rightarrow> string" where
  "rstrip_eq s = rev (dropWhile (\<lambda>c. c = CHR ''='') (rev s))"

definition b64url :: "lib \<Rightarrow> string \<Rightarrow> string" where
  "b64url L data = rstrip_eq (urlsafe_b64encode L data)"

definition b64url_decode :: "lib \<Rightarrow> string \<Rightarrow> string option" where
  "b64url_decode L s =
     urlsafe_b64decode L (s @ replicate ((4 - length s mod 4) mod 4) (CHR ''=''))"

text \<open>
  The operating system as far as \<^verbatim>\<open>ensure_keypair\<close> uses it. Its calls are parameters,
  over any type \<open>'fs\<close> of file system states: \<^verbatim>\<open>os.makedirs(path, exist_ok=True)\<close>,
  \<^verbatim>\<open>os.path.exists(path)\<close>, writing a file (\<^verbatim>\<open>open(path, "wb")\<close>, \<^verbatim>\<open>write\<close>, close) and reading
  one (\<^verbatim>\<open>open(path, "rb")\<close>, \<^verbatim>\<open>read\<close>, close). A call that changes the file system returns
  the exception it raised, if any, and the state it left. \<^verbatim>\<open>open(path, "wb")\<close> passes no
  permission bits: the system creates a new file with \<^verbatim>\<open>0o666\<close> less the bits of the
  process's umask.
\<close>

record 'fs osys =
  os_makedirs :: "'fs \<Rightarrow> string \<Rightarrow> exn option \<times> 'fs"
  os_exists :: "'fs \<Rightarrow> string \<Rightarrow> bool"
  os_write :: "'fs \<Rightarrow> string \<Rightarrow> string \<Rightarrow> exn option \<times> 'fs"
  os_read :: "'fs \<Rightarrow> string \<Rightarrow> exn + string"

fun rstrip_slash :: "string \<Rightarrow> string" where
  "rstrip_slash s = rev (dropWhile (\<lambda>c. c = CHR ''/'') (rev s))"

definition dirname :: "string \<Rightarrow> string" where
  "dirname p =
     (let hd_rev = dropWhile (\<lambda>c. c \<noteq> CHR ''/'') (rev p);
          head = rev hd_rev
      in if head \<noteq> [] \<and> \<not> list_all (\<lambda>c. c = CHR ''/'') head then rstrip_slash head else head)"

text \<open>\<^verbatim>\<open>SigningKey(raw)\<close> and \<^verbatim>\<open>VerifyKey(raw)\<close> accept 32 bytes and raise \<^verbatim>\<open>ValueError\<close>
  otherwise. A key object is modelled by its bytes.\<close>

definition SigningKey :: "string \<Rightarrow> exn + string" where
  "SigningKey raw = (if length raw = 32 then Inr raw else Inl ValueError)"

definition VerifyKey :: "string \<Rightarrow> exn + string" where
  "VerifyKey raw = (if length raw = 32 then Inr raw else Inl ValueError)"

text \<open>\<^verbatim>\<open>vk.verify(msg, sig)\<close>: a signature that is not 64 bytes long raises \<^verbatim>\<open>ValueError\<close>,
  one that does not verify raises \<^verbatim>\<open>BadSignatureError\<close>.\<close>

definition vk_verify :: "lib \<Rightarrow> string \<Rightarrow> string \<Rightarrow> string \<Rightarrow> exn + unit" where
  "vk_verify L vk msg sg =
     (if length sg \<noteq> 64 then Inl ValueError
      else if ed_check L vk msg sg then Inr ()
      else Inl BadSignatureError)"

text \<open>\<open>seed\<close> is what \<^verbatim>\<open>SigningKey.generate()\<close> draws when it is called.\<close>

definition ensure_keypair ::
  "lib \<Rightarrow> 'fs osys \<Rightarrow> string \<Rightarrow> string \<Rightarrow> 'fs \<Rightarrow> (exn + (string \<times> string)) \<times> 'fs" where
  "ensure_keypair L OS key_path seed fs =
     (case os_makedirs OS fs (dirname key_path) of
        (Some e, fs1) \<Rightarrow> (Inl e, fs1)
      | (None, fs1) \<Rightarrow>
          if \<not> os_exists OS fs1 key_path then
            (case SigningKey seed of
               Inl e \<Rightarrow> (Inl e, fs1)
             | Inr sk \<Rightarrow>
                 (case os_write OS fs1 key_path sk of
                    (Some e, fs2) \<Rightarrow> (Inl e, fs2)
                  | (None, fs2) \<Rightarrow> (Inr (sk, ed_public L sk), fs2)))
          else
            (case os_read OS fs1 key_path of
               Inl e \<Rightarrow> (Inl e, fs1)
             | Inr raw \<Rightarrow>
                 (case SigningKey raw of
                    Inl e \<Rightarrow> (Inl e, fs1)
                  | Inr sk \<Rightarrow> (Inr (sk, ed_public L sk), fs1))))"

definition sign_compact :: "lib \<Rightarrow> pyval \<Rightarrow> pyval \<Rightarrow> string \<Rightarrow> exn + string" where
  "sign_compact L header payload sk =
     (case json_dumps L header of
        Inl e \<Rightarrow> Inl e
      | Inr hj \<Rightarrow>
          (case json_dumps L payload of
             Inl e \<Rightarrow> Inl e
           | Inr pj \<Rightarrow>
               (let signing_input =
                      rstrip_eq (urlsafe_b64encode L (utf8_encode hj)) @ ''.''
                      @ rstrip_eq (urlsafe_b64encode L (utf8_encode pj));
                    sg = ed_sign L sk signing_input
                in Inr (signing_input @ ''.'' @ rstrip_eq (urlsafe_b64encode L sg)))))"

fun split_dot :: "string \<Rightarrow> string list" where
  "split_dot [] = [Nil]"
| "split_dot (c # cs) =
     (if c = CHR ''.'' then [] # split_dot cs
      else (case split_dot cs of [] \<Rightarrow> [c] # Nil | p # ps \<Rightarrow> (c # p) # ps))"

text \<open>\<^verbatim>\<open>verify_compact\<close> turns every failure into a \<^verbatim>\<open>ValueError\<close> whose text is
  \<^verbatim>\<open>verification failed: \<close> and the text of the cause; the cause is the \<open>Inl\<close> value.\<close>

definition verify_compact :: "lib \<Rightarrow> string \<Rightarrow> string \<Rightarrow> detail + (pyval \<times> pyval)" where
  "verify_compact L token vk =
     (case split_dot token of
        [p0, p1, p2] \<Rightarrow>
          (case b64url_decode L p0 of
             None \<Rightarrow> Inl (B64Error p0)
           | Some h_b \<Rightarrow>
          (case b64url_decode L p1 of
             None \<Rightarrow> Inl (B64Error p1)
           | Some p_b \<Rightarrow>
          (case b64url_decode L p2 of
             None \<Rightarrow> Inl (B64Error p2)
           | Some sig_b \<Rightarrow>
               if \<not> is_ascii (p0 @ ''.'' @ p1) then Inl NotAscii
               else
                 (case vk_verify L vk (p0 @ ''.'' @ p1) sig_b of
                    Inl e \<Rightarrow> Inl (if e = BadSignatureError then BadSig else SigLength)
                  | Inr u \<Rightarrow>
                      (case json_loads L h_b of
                         None \<Rightarrow> Inl (JsonError h_b)
                       | Some header \<Rightarrow>
                           (case json_loads L p_b of
                              None \<Rightarrow> Inl (JsonError p_b)
                            | Some payload \<Rightarrow> Inr (header, payload)))))))
      | _ \<Rightarrow> Inl InvalidTokenFormat)"

section \<open>Authy service: the endpoints (authy_server.py)\<close>

record IssueReq =
  req_sub :: string
  req_scope :: "string list"
  req_ttl :: "int option"
  req_nonce :: string
  req_org_id :: "string option"
  req_raw :: "string option"

record IssueResp =
  resp_token :: string
  resp_kid :: int
  resp_jti :: string
  resp_exp :: int

datatype reason = Expired | Revoked | MissingJti | VerificationFailed detail

definition reason_text :: "lib \<Rightarrow> reason \<Rightarrow> string" where
  "reason_text L r =
     (case r of
        Expired \<Rightarrow> ''expired''
      | Revoked \<Rightarrow> ''revoked''
      | MissingJti \<Rightarrow> ''missing jti''
      | VerificationFailed d \<Rightarrow> ''verification failed: '' @ error_text L d)"

record VerifyResp =
  valid :: bool
  v_sub :: pyval
  v_scope :: pyval
  v_org_id :: pyval
  v_exp :: pyval
  v_kid :: pyval
  v_jti :: pyval
  v_reason :: "string option"

definition invalid_resp :: "lib \<Rightarrow> reason \<Rightarrow> VerifyResp" where
  "invalid_resp L r =
     \<lparr>valid = False, v_sub = PNone, v_scope = PNone, v_org_id = PNone, v_exp = PNone,
      v_kid = PNone, v_jti = PNone, v_reason = Some (reason_text L r)\<rparr>"

record RevokeReq =
  rv_token :: "string option"
  rv_jti :: "string option"
  rv_reason :: "string option"

definition KID :: int where
  "KID = 1"

definition opt_str :: "string option \<Rightarrow> pyval" where
  "opt_str x = (case x of None \<Rightarrow> PNone | Some s \<Rightarrow> PStr s)"

text \<open>\<open>sk\<close> and \<open>vk\<close> are the pair that \<^verbatim>\<open>ensure_keypair\<close> returned when the module was
  loaded; \<open>now\<close> is the clock reading, \<open>jti\<close> the result of \<^verbatim>\<open>uuid.uuid4().hex\<close> and \<open>ip\<close> the
  address of the client.\<close>

definition issue ::
  "lib \<Rightarrow> environ \<Rightarrow> int \<Rightarrow> string \<Rightarrow> authy_state \<Rightarrow> IssueReq \<Rightarrow> int \<Rightarrow> string \<Rightarrow> string
     \<Rightarrow> (exn + IssueResp) \<times> authy_state" where
  "issue L env ttl_default sk st req now jti ip =
     (let ttl = (case req_ttl req of
                   None \<Rightarrow> ttl_default
                 | Some t \<Rightarrow> if t \<noteq> 0 \<and> t > 0 then t else ttl_default);
          expv = now + ttl;
          ip_hash = sha256_hex L (utf8_encode ip);
          scope = PList (map PStr (req_scope req));
          header = PDict [(KStr ''alg'', PStr ''Ed25519''), (KStr ''kid'', PInt KID),
                          (KStr ''typ'', PStr ''ISMJ'')];
          payload0 = [(KStr ''iss'', PStr (ISSUER env)),
                      (KStr ''sub'', PStr (req_sub req)),
                      (KStr ''scope'', scope),
                      (KStr ''org_id'', opt_str (req_org_id req)),
                      (KStr ''iat'', PInt now),
                      (KStr ''exp'', PInt expv),
                      (KStr ''jti'', PStr jti),
                      (KStr ''nonce'', PStr (req_nonce req)),
                      (KStr ''kid'', PInt KID)]
      in
        case hmac_metrics L (METRICS_SECRET env)
               (PDict [(KStr ''sub'', PStr (req_sub req)),
                       (KStr ''scope'', scope),
                       (KStr ''org_id'', opt_str (req_org_id req)),
                       (KStr ''raw'', PStr (case req_raw req of None \<Rightarrow> [] | Some r \<Rightarrow> r)),
                       (KStr ''nonce'', PStr (req_nonce req)),
                       (KStr ''iat'', PInt now)]) of
          Inl e \<Rightarrow> (Inl e, st)
        | Inr mtag \<Rightarrow>
            (let payload = payload0 @ [(KStr ''mtag'', PStr mtag)] in
             case sign_compact L header (PDict payload) sk of
               Inl e \<Rightarrow> (Inl e, st)
             | Inr token \<Rightarrow>
                 (let sig_b64 = last (split_dot token);
                      rec = PDict (payload @ [(KStr ''metrics_tag'', PStr mtag),
                                              (KStr ''ip_hash'', PStr ip_hash)])
                  in (Inr \<lparr>resp_token = token, resp_kid = KID, resp_jti = jti, resp_exp = expv\<rparr>,
                      save_passport st jti rec sig_b64))))"

definition verify :: "lib \<Rightarrow> string \<Rightarrow> authy_state \<Rightarrow> string \<Rightarrow> int \<Rightarrow> exn + VerifyResp" where
  "verify L vk st token now =
     (case verify_compact L token vk of
        Inl d \<Rightarrow> Inr (invalid_resp L (VerificationFailed d))
      | Inr (header, payload) \<Rightarrow>
          (case pv_get payload ''exp'' (PInt 0) of
             Inl e \<Rightarrow> Inl e
           | Inr ev \<Rightarrow>
          (case py_lt_int ev now of
             Inl e \<Rightarrow> Inl e
           | Inr is_expired \<Rightarrow>
               if is_expired then Inr (invalid_resp L Expired)
               else
                 (case pv_get payload ''jti'' PNone of
                    Inl e \<Rightarrow> Inl e
                  | Inr jti \<Rightarrow>
                      if \<not> py_truthy jti then Inr (invalid_resp L MissingJti)
                      else
                        (case is_revoked L st jti of
                           Inl e \<Rightarrow> Inl e
                         | Inr rv \<Rightarrow>
                             if rv then Inr (invalid_resp L Revoked)
                             else
                               (case (pv_get payload ''sub'' PNone, pv_get payload ''scope'' PNone,
                                      pv_get payload ''org_id'' PNone, pv_get payload ''exp'' PNone,
                                      pv_get payload ''kid'' PNone) of
                                  (Inr s, Inr sc, Inr og, Inr ex, Inr kd) \<Rightarrow>
                                    Inr \<lparr>valid = True, v_sub = s, v_scope = sc, v_org_id = og,
                                         v_exp = ex, v_kid = kd, v_jti = jti, v_reason = None\<rparr>
                                | _ \<Rightarrow> Inl AttributeError))))))"

definition revoke ::
  "lib \<Rightarrow> string \<Rightarrow> authy_state \<Rightarrow> RevokeReq \<Rightarrow> int \<Rightarrow> (exn + pyval) \<times> authy_state" where
  "revoke L vk st req now =
     (let jti0 = opt_str (rv_jti req);
          token_given = (case rv_token req of None \<Rightarrow> False | Some t \<Rightarrow> t \<noteq> []);
          jti1 = (if token_given \<and> \<not> py_truthy jti0 then
                    (case verify_compact L (the (rv_token req)) vk of
                       Inl d \<Rightarrow> Inl HTTPException400
                     | Inr (header, payload) \<Rightarrow>
                         (case pv_get payload ''jti'' PNone of
                            Inl e \<Rightarrow> Inl HTTPException400
                          | Inr v \<Rightarrow> Inr v))
                  else Inr jti0)
      in case jti1 of
           Inl e \<Rightarrow> (Inl e, st)
         | Inr jti \<Rightarrow>
             if \<not> py_truthy jti then (Inl HTTPException400, st)
             else
               (case revoke_jti L st jti (rv_reason req) (Some ''api'') now of
                  Inl e \<Rightarrow> (Inl e, st)
                | Inr st' \<Rightarrow> (Inr jti, st')))"

text \<open>Later requests to the service, in any order.\<close>

datatype authy_op =
    ReqIssue IssueReq int string string
  | ReqVerify string int
  | ReqRevoke RevokeReq int

fun authy_step ::
  "lib \<Rightarrow> environ \<Rightarrow> int \<Rightarrow> string \<Rightarrow> string \<Rightarrow> authy_state \<Rightarrow> authy_op \<Rightarrow> authy_state" where
  "authy_step L env ttl_default sk vk st (ReqIssue req now jti ip) =
     snd (issue L env ttl_default sk st req now jti ip)"
| "authy_step L env ttl_default sk vk st (ReqVerify token now) = st"
| "authy_step L env ttl_default sk vk st (ReqRevoke req now) = snd (revoke L vk st req now)"

definition authy_run ::
  "lib \<Rightarrow> environ \<Rightarrow> int \<Rightarrow> string \<Rightarrow> string \<Rightarrow> authy_state \<Rightarrow> authy_op list \<Rightarrow> authy_state" where
  "authy_run L env ttl_default sk vk st ops = foldl (authy_step L env ttl_default sk vk) st ops"


section \<open>JWKS cache (auth0_utils.py)\<close>

text \<open>The cache holds \<^verbatim>\<open>keys\<close> (\<^verbatim>\<open>None\<close> until the first successful fetch), the time of
  that fetch and the time to live. The outcome of the HTTP request is an input:
  \<^verbatim>\<open>httpx.get\<close> or \<^verbatim>\<open>raise_for_status\<close> raises an \<^verbatim>\<open>httpx.HTTPError\<close>, or \<^verbatim>\<open>r.json()\<close> raises
  a \<^verbatim>\<open>ValueError\<close>, or the body decodes to a value.\<close>

record jwks_cache =
  cache_keys :: pyval
  cache_ts :: rat
  cache_ttl :: rat

definition JWKS_CACHE_init :: jwks_cache where
  "JWKS_CACHE_init = \<lparr>cache_keys = PNone, cache_ts = 0, cache_ttl = 300\<rparr>"

datatype http_outcome = HttpFails | BodyNotJson | Body pyval

datatype log_level = LogDebug | LogInfo | LogWarning | LogError

fun is_prefix :: "string \<Rightarrow> string \<Rightarrow> bool" where
  "is_prefix [] s = True"
| "is_prefix (p # ps) [] = False"
| "is_prefix (p # ps) (c # cs) = (p = c \<and> is_prefix ps cs)"

fun is_substring :: "string \<Rightarrow> string \<Rightarrow> bool" where
  "is_substring p [] = (p = [])"
| "is_substring p (c # cs) = (is_prefix p (c # cs) \<or> is_substring p cs)"

text \<open>The structure check \<^verbatim>\<open>"keys" not in jwks or not isinstance(jwks["keys"], list)\<close>
  on an arbitrary decoded body: \<open>Inr True\<close> when the body is accepted.\<close>

fun is_PList :: "pyval \<Rightarrow> bool" where
  "is_PList (PList _) = True"
| "is_PList _ = False"

fun jwks_structure_ok :: "pyval \<Rightarrow> exn + bool" where
  "jwks_structure_ok (PDict kvs) =
     (case map_of kvs (KStr ''keys'') of
        None \<Rightarrow> Inr False
      | Some ks \<Rightarrow> Inr (is_PList ks))"
| "jwks_structure_ok (PList xs) = (if PStr ''keys'' \<in> set xs then Inl TypeError else Inr False)"
| "jwks_structure_ok (PStr s) = (if is_substring ''keys'' s then Inl TypeError else Inr False)"
| "jwks_structure_ok _ = Inl TypeError"

definition cache_fresh :: "jwks_cache \<Rightarrow> rat \<Rightarrow> bool" where
  "cache_fresh c now = (py_truthy (cache_keys c) \<and> now - cache_ts c < cache_ttl c)"

definition jwks ::
  "string \<Rightarrow> jwks_cache \<Rightarrow> rat \<Rightarrow> http_outcome
     \<Rightarrow> (exn + pyval) \<times> jwks_cache \<times> log_level list" where
  "jwks auth0_domain c now outcome =
     (if auth0_domain = [] then (Inl ValueError, c, [])
      else if cache_fresh c now then (Inr (cache_keys c), c, [])
      else if cache_fresh c now then (Inr (cache_keys c), c, [])
      else
        case outcome of
          HttpFails \<Rightarrow>
            (if py_truthy (cache_keys c)
             then (Inr (cache_keys c), c, [LogDebug, LogError, LogWarning])
             else (Inl HTTPError, c, [LogDebug, LogError]))
        | BodyNotJson \<Rightarrow> (Inl ValueError, c, [LogDebug, LogError])
        | Body j \<Rightarrow>
            (case jwks_structure_ok j of
               Inl e \<Rightarrow> (Inl e, c, [LogDebug, LogError])
             | Inr ok \<Rightarrow>
                 if \<not> ok then (Inl ValueError, c, [LogDebug, LogError])
                 else (Inr j, c\<lparr>cache_keys := j, cache_ts := now\<rparr>, [LogDebug, LogInfo])))"

text \<open>The notion of a structurally valid response in the description of the cache: the
  body is an object with a member \<^verbatim>\<open>keys\<close> that is an array.\<close>

fun has_keys_array :: "pyval \<Rightarrow> bool" where
  "has_keys_array (PDict kvs) =
     (case map_of kvs (KStr ''keys'') of None \<Rightarrow> False | Some ks \<Rightarrow> is_PList ks)"
| "has_keys_array _ = False"

text \<open>A cache that has been filled once, at second 1000.\<close>

definition warm_cache :: jwks_cache where
  "warm_cache = \<lparr>cache_keys = PDict [(KStr ''keys'', PList [PDict [(KStr ''kid'', PStr ''k1'')]])],
                 cache_ts = 1000, cache_ttl = 300\<rparr>"

section \<open>Passports (ismx/passport.py)\<close>

definition COMMIT_KEY :: "environ \<Rightarrow> string" where
  "COMMIT_KEY env =
     utf8_encode (case env ''COMMIT_KEY'' of
                    None \<Rightarrow> ''dev-commit-key''
                  | Some s \<Rightarrow> if s = [] then ''dev-commit-key'' else s)"

definition hmac_commit :: "lib \<Rightarrow> environ \<Rightarrow> pyval \<Rightarrow> exn + string" where
  "hmac_commit L env payload =
     (case json_dumps L payload of
        Inl e \<Rightarrow> Inl e
      | Inr js \<Rightarrow> Inr (hmac_sha256_hex L (COMMIT_KEY env) (utf8_encode js)))"

text \<open>\<^verbatim>\<open>base64.b64decode\<close> of an arbitrary value: a string must be ASCII and well-formed
  base64 (\<^verbatim>\<open>ValueError\<close> otherwise), any other value raises \<^verbatim>\<open>TypeError\<close>.\<close>

fun py_b64decode :: "lib \<Rightarrow> pyval \<Rightarrow> exn + string" where
  "py_b64decode L (PStr s) =
     (if \<not> is_ascii s then Inl ValueError
      else (case b64decode L s of None \<Rightarrow> Inl ValueError | Some b \<Rightarrow> Inr b))"
| "py_b64decode L _ = Inl TypeError"

text \<open>\<^verbatim>\<open>hmac.compare_digest(a, b)\<close> of a string with an arbitrary value: both must be ASCII
  strings.\<close>

fun compare_digest :: "string \<Rightarrow> pyval \<Rightarrow> exn + bool" where
  "compare_digest a (PStr b) =
     (if is_ascii a \<and> is_ascii b then Inr (a = b) else Inl TypeError)"
| "compare_digest a _ = Inl TypeError"

text \<open>\<open>seed\<close> is what \<^verbatim>\<open>SigningKey.generate()\<close> draws if it is called. A variable that is
  unset or empty counts as missing.\<close>

definition env_missing :: "environ \<Rightarrow> string \<Rightarrow> bool" where
  "env_missing env k = (case env k of None \<Rightarrow> True | Some v \<Rightarrow> v = [])"

definition load_keys :: "lib \<Rightarrow> environ \<Rightarrow> string \<Rightarrow> exn + (string \<times> string)" where
  "load_keys L env seed =
     (let env_mode = getenv_default env ''ENV'' ''development'' in
      if env_missing env ''ED25519_SK_B64'' \<or> env_missing env ''ED25519_VK_B64'' then
        (if env_mode = ''development'' then
           (case SigningKey seed of
              Inl e \<Rightarrow> Inl e
            | Inr sk \<Rightarrow> Inr (sk, ed_public L sk))
         else Inl ValueError)
      else
        (case py_b64decode L (PStr (the (env ''ED25519_SK_B64''))) of
           Inl e \<Rightarrow> Inl ValueError
         | Inr skb \<Rightarrow>
             (case SigningKey skb of
                Inl e \<Rightarrow> Inl ValueError
              | Inr sk \<Rightarrow>
                  (case py_b64decode L (PStr (the (env ''ED25519_VK_B64''))) of
                     Inl e \<Rightarrow> Inl ValueError
                   | Inr vkb \<Rightarrow>
                       (case VerifyKey vkb of
                          Inl e \<Rightarrow> Inl ValueError
                        | Inr vk \<Rightarrow> Inr (sk, vk))))))"

definition pack_message ::
  "lib \<Rightarrow> pyval \<Rightarrow> pyval \<Rightarrow> pyval \<Rightarrow> pyval \<Rightarrow> pyval \<Rightarrow> exn + string" where
  "pack_message L agent_id session_id commitment ttl_s nonce =
     (case json_dumps L (PDict [(KStr ''agent_id'', agent_id),
                                (KStr ''session_id'', session_id),
                                (KStr ''commitment'', commitment),
                                (KStr ''ttl_s'', ttl_s),
                                (KStr ''nonce'', nonce)]) of
        Inl e \<Rightarrow> Inl e
      | Inr js \<Rightarrow> Inr (utf8_encode js))"

text \<open>\<open>nonce\<close> is the result of \<^verbatim>\<open>secrets.token_hex(16)\<close>; \<open>now1\<close> and \<open>now2\<close> are the two
  readings \<^verbatim>\<open>int(time.time())\<close> of the clock, for \<^verbatim>\<open>exp\<close> and for \<^verbatim>\<open>issued_at\<close>.\<close>

definition issue_passport ::
  "lib \<Rightarrow> environ \<Rightarrow> string \<Rightarrow> string \<Rightarrow> string \<Rightarrow> string \<Rightarrow> pyval \<Rightarrow> int \<Rightarrow> int \<Rightarrow> int
     \<Rightarrow> exn + pydict" where
  "issue_passport L env seed nonce agent_id session_id redacted_metrics ttl_s now1 now2 =
     (case load_keys L env seed of
        Inl e \<Rightarrow> Inl e
      | Inr (sk, vk) \<Rightarrow>
          (case hmac_commit L env redacted_metrics of
             Inl e \<Rightarrow> Inl e
           | Inr commitment \<Rightarrow>
               (case pack_message L (PStr agent_id) (PStr session_id) (PStr commitment)
                       (PInt ttl_s) (PStr nonce) of
                  Inl e \<Rightarrow> Inl e
                | Inr msg \<Rightarrow>
                    (let sg = ed_sign L sk msg;
                         expv = now1 + ttl_s
                     in Inr [''agent_id'' \<mapsto> PStr agent_id,
                             ''session_id'' \<mapsto> PStr session_id,
                             ''commitment'' \<mapsto> PStr commitment,
                             ''nonce'' \<mapsto> PStr nonce,
                             ''sig_b64'' \<mapsto> PStr (b64encode L sg),
                             ''vk_b64'' \<mapsto> PStr (b64encode L vk),
                             ''exp'' \<mapsto> PInt expv,
                             ''ttl_s_original'' \<mapsto> PInt ttl_s,
                             ''issued_at'' \<mapsto> PInt now2]))))"

text \<open>Sequencing: the first exception ends the computation.\<close>

definition then_do :: "exn + 'a \<Rightarrow> ('a \<Rightarrow> exn + 'b) \<Rightarrow> exn + 'b" where
  "then_do m f = (case m of Inl e \<Rightarrow> Inl e | Inr v \<Rightarrow> f v)"

text \<open>The body of the \<^verbatim>\<open>try\<close> block of \<^verbatim>\<open>verify_passport\<close>, every exception still visible.\<close>

definition verify_passport_try ::
  "lib \<Rightarrow> environ \<Rightarrow> pydict \<Rightarrow> string \<Rightarrow> string \<Rightarrow> pyval \<Rightarrow> int \<Rightarrow> exn + bool" where
  "verify_passport_try L env passport agent_id session_id redacted_metrics now =
     then_do (py_int (dict_get_default passport ''exp'' (PInt 0))) (\<lambda>expv.
     if now > expv then Inr False
     else
     then_do (hmac_commit L env redacted_metrics) (\<lambda>expected_commit.
     then_do (compare_digest expected_commit
                (dict_get_default passport ''commitment'' (PStr []))) (\<lambda>same.
     if \<not> same then Inr False
     else if dict_get passport ''agent_id'' \<noteq> PStr agent_id then Inr False
     else if dict_get passport ''session_id'' \<noteq> PStr session_id then Inr False
     else
     then_do (dict_index passport ''commitment'') (\<lambda>commitment.
     then_do (dict_index passport ''nonce'') (\<lambda>nonce.
     then_do (pack_message L (PStr agent_id) (PStr session_id) commitment
                (dict_get_default passport ''ttl_s_original'' (PInt 60)) nonce) (\<lambda>msg.
     then_do (dict_index passport ''vk_b64'') (\<lambda>vk_b64.
     then_do (py_b64decode L vk_b64) (\<lambda>vk_raw.
     then_do (VerifyKey vk_raw) (\<lambda>vk.
     then_do (dict_index passport ''sig_b64'') (\<lambda>sig_b64.
     then_do (py_b64decode L sig_b64) (\<lambda>sg.
     then_do (vk_verify L vk msg sg) (\<lambda>u.
     Inr True))))))))))))"

text \<open>\<^verbatim>\<open>except (BadSignatureError, KeyError, ValueError, TypeError): return False\<close>\<close>

definition caught :: "exn \<Rightarrow> bool" where
  "caught e = (e = BadSignatureError \<or> e = KeyError \<or> e = ValueError \<or> e = TypeError)"

definition verify_passport ::
  "lib \<Rightarrow> environ \<Rightarrow> pydict \<Rightarrow> string \<Rightarrow> string \<Rightarrow> pyval \<Rightarrow> int \<Rightarrow> exn + bool" where
  "verify_passport L env passport agent_id session_id redacted_metrics now =
     (case verify_passport_try L env passport agent_id session_id redacted_metrics now of
        Inl e \<Rightarrow> if caught e then Inr False else Inl e
      | Inr b \<Rightarrow> Inr b)"

definition passport_is_expired :: "pydict \<Rightarrow> int \<Rightarrow> exn + bool" where
  "passport_is_expired passport now =
     (case py_int (dict_get_default passport ''exp'' (PInt 0)) of
        Inl e \<Rightarrow> if e = ValueError \<or> e = TypeError then Inr True else Inl e
      | Inr expv \<Rightarrow> Inr (now > expv))"

section \<open>A stand-in library for evaluating the model\<close>

text \<open>
  To run the model on concrete inputs the library parameters need values. This
  instance is not cryptography: the public key is the seed, a signature is the key
  followed by 32 hexadecimal characters of the zero-padded message, a digest is the first
  64 hexadecimal characters of the reversed message and the key, \<^verbatim>\<open>b64encode\<close> writes
  bytes in hexadecimal, and the URL-safe encoding is the identity (decoding drops the
  padding that \<open>b64url_decode\<close> adds). \<^verbatim>\<open>json.loads\<close>
  knows two documents, the header and the payload of the token of the examples. The
  instance satisfies the properties of a library that the theorems below assume.
\<close>

definition hexlify :: "string \<Rightarrow> string" where
  "hexlify s = concat (map (\<lambda>c. [hex_digit ((of_char c :: nat) div 16),
                                   hex_digit ((of_char c :: nat) mod 16)]) s)"

definition toy_sig :: "string \<Rightarrow> string \<Rightarrow> string" where
  "toy_sig sk msg = sk @ take 32 (hexlify msg @ replicate 32 (CHR ''0''))"

definition base_lib :: lib where
  "base_lib =
     \<lparr>float_repr = (\<lambda>q. ''0.0''),
      hmac_sha256_hex = (\<lambda>key msg. take 64 (hexlify (rev msg @ key) @ replicate 64 (CHR ''0''))),
      sha256_hex = (\<lambda>msg. take 64 (hexlify msg @ replicate 64 (CHR ''0''))),
      ed_public = (\<lambda>sk. sk),
      ed_sign = toy_sig,
      ed_check = (\<lambda>vk msg sg. sg = toy_sig vk msg),
      b64encode = hexlify,
      b64decode = fromhex,
      urlsafe_b64encode = (\<lambda>b. b),
      urlsafe_b64decode = (\<lambda>s. Some (rstrip_eq s)),
      json_loads = (\<lambda>s. None),
      sql_text = (\<lambda>v. case v of PStr s \<Rightarrow> Some s | _ \<Rightarrow> None),
      error_text = (\<lambda>d. [])\<rparr>"

definition demo_header :: pyval where
  "demo_header = PDict [(KStr ''alg'', PStr ''Ed25519''), (KStr ''kid'', PInt 1),
                        (KStr ''typ'', PStr ''ISMJ'')]"

definition demo_payload :: pyval where
  "demo_payload = PDict [(KStr ''sub'', PStr ''alice''), (KStr ''exp'', PInt 100),
                         (KStr ''jti'', PStr ''J1'')]"

definition doc_text :: "pyval \<Rightarrow> string" where
  "doc_text v = (case json_dumps base_lib v of Inl e \<Rightarrow> [] | Inr s \<Rightarrow> utf8_encode s)"

definition toy_lib :: lib where
  "toy_lib =
     base_lib\<lparr>json_loads :=
       (\<lambda>s. if s = doc_text demo_header then Some demo_header
             else if s = doc_text demo_payload then Some demo_payload
             else None)\<rparr>"

subsection \<open>A stand-in file system\<close>

text \<open>
  For the examples, a file system in the manner of POSIX: regular files (contents and
  permission bits) and directories under their lists of path components, and the
  umask. Empty components and \<^verbatim>\<open>.\<close> are dropped, a leading slash is the root, and a
  trailing slash names a directory. Parent references (\<^verbatim>\<open>..\<close>), links and permission
  checks are not interpreted.
\<close>

record posix_fs =
  files :: "string list \<rightharpoonup> (string \<times> int)"
  dirs :: "string list set"
  umask :: int

fun split_slash :: "string \<Rightarrow> string list" where
  "split_slash [] = [Nil]"
| "split_slash (c # cs) =
     (if c = CHR ''/'' then [] # split_slash cs
      else (case split_slash cs of [] \<Rightarrow> [c] # Nil | p # ps \<Rightarrow> (c # p) # ps))"

definition components :: "string \<Rightarrow> string list" where
  "components p =
     (if p \<noteq> [] \<and> hd p = CHR ''/'' then [''/''] else [])
     @ filter (\<lambda>c. c \<noteq> [] \<and> c \<noteq> ''.'') (split_slash p)"

definition names_dir :: "string \<Rightarrow> bool" where
  "names_dir p = (p \<noteq> [] \<and> last p = CHR ''/'')"

definition is_dir :: "posix_fs \<Rightarrow> string list \<Rightarrow> bool" where
  "is_dir fs q = (q = [] \<or> q = [''/''] \<or> q \<in> dirs fs)"

definition is_file :: "posix_fs \<Rightarrow> string list \<Rightarrow> bool" where
  "is_file fs q = (files fs q \<noteq> None)"

definition prefixes_of :: "string list \<Rightarrow> string list list" where
  "prefixes_of q = map (\<lambda>n. take n q) [1..<Suc (length q)]"

definition create_mode :: "int \<Rightarrow> int" where
  "create_mode um = and 438 (not um)"

definition posix_makedirs :: "posix_fs \<Rightarrow> string \<Rightarrow> exn option \<times> posix_fs" where
  "posix_makedirs fs p =
     (if p = [] then (Some FileNotFoundError, fs)
      else
        let q = components p in
        if list_ex (is_file fs) (butlast (prefixes_of q)) then (Some NotADirectoryError, fs)
        else if is_file fs q then (Some FileExistsError, fs)
        else (None, fs\<lparr>dirs := dirs fs \<union> set (prefixes_of q)\<rparr>))"

definition posix_exists :: "posix_fs \<Rightarrow> string \<Rightarrow> bool" where
  "posix_exists fs p =
     (p \<noteq> [] \<and> (is_dir fs (components p) \<or> (is_file fs (components p) \<and> \<not> names_dir p)))"

definition posix_write :: "posix_fs \<Rightarrow> string \<Rightarrow> string \<Rightarrow> exn option \<times> posix_fs" where
  "posix_write fs p data =
     (if p = [] then (Some FileNotFoundError, fs)
      else
        let q = components p in
        if is_dir fs q \<or> names_dir p then (Some IsADirectoryError, fs)
        else if is_file fs (butlast q) then (Some NotADirectoryError, fs)
        else if \<not> is_dir fs (butlast q) then (Some FileNotFoundError, fs)
        else
          (None,
           fs\<lparr>files := (files fs)(q \<mapsto>
                  (data, case files fs q of None \<Rightarrow> create_mode (umask fs) | Some (d, m) \<Rightarrow> m))\<rparr>))"

definition posix_read :: "posix_fs \<Rightarrow> string \<Rightarrow> exn + string" where
  "posix_read fs p =
     (if p = [] then Inl FileNotFoundError
      else
        let q = components p in
        if is_dir fs q then Inl IsADirectoryError
        else
          case files fs q of
            None \<Rightarrow> Inl FileNotFoundError
          | Some (d, m) \<Rightarrow> if names_dir p then Inl NotADirectoryError else Inr d)"

definition posix_os :: "posix_fs osys" where
  "posix_os = \<lparr>os_makedirs = posix_makedirs, os_exists = posix_exists,
               os_write = posix_write, os_read = posix_read\<rparr>"

text \<open>An empty working directory under the usual umask \<^verbatim>\<open>0o022\<close>.\<close>

definition empty_fs :: posix_fs where
  "empty_fs = \<lparr>files = Map.empty, dirs = {}, umask = 18\<rparr>"

text \<open>The inputs of the examples: a seed, a nonce, a metrics dictionary, environments
  with and without \<^verbatim>\<open>ENV=production\<close>, an empty ledger, and the
  token that \<open>sign_compact\<close> makes of the example header and payload.\<close>

definition demo_seed :: string where
  "demo_seed = replicate 32 (CHR ''s'')"

definition demo_nonce :: string where
  "demo_nonce = ''000102030405060708090a0b0c0d0e0f''"

definition demo_metrics :: pyval where
  "demo_metrics = PDict [(KStr ''ver'', PInt 1), (KStr ''status'', PStr ''ok'')]"


definition authy_init :: authy_state where
  "authy_init = \<lparr>passports = Map.empty, revocations = Map.empty\<rparr>"

definition demo_token :: string where
  "demo_token = (case sign_compact toy_lib demo_header demo_payload demo_seed of
                   Inl e \<Rightarrow> [] | Inr t \<Rightarrow> t)"

definition revoke_J1 :: RevokeReq where
  "revoke_J1 = \<lparr>rv_token = None, rv_jti = Some ''J1'', rv_reason = None\<rparr>"

text \<open>What the theorems about issued passports assume of the library: a signature made
  with a 32-byte signing key has 64 bytes and verifies under the public key of that
  signing key, which has 32 bytes; \<^verbatim>\<open>b64decode\<close> inverts \<^verbatim>\<open>b64encode\<close>, whose output is
  ASCII; and a hexadecimal digest is ASCII.\<close>

definition lib_ok :: "lib \<Rightarrow> bool" where
  "lib_ok L =
     ((\<forall>sk msg. length sk = 32 \<longrightarrow> ed_check L (ed_public L sk) msg (ed_sign L sk msg))
      \<and> (\<forall>sk msg. length sk = 32 \<longrightarrow> length (ed_sign L sk msg) = 64)
      \<and> (\<forall>sk. length sk = 32 \<longrightarrow> length (ed_public L sk) = 32)
      \<and> (\<forall>b. b64decode L (b64encode L b) = Some b)
      \<and> (\<forall>b. is_ascii (b64encode L b))
      \<and> (\<forall>k m. is_ascii (hmac_sha256_hex L k m)))"

text \<open>Passports of the examples: issued for the example metrics with both clock
  readings at second 100, issued with the second reading one second later, and issued
  for a metrics dictionary with the integer key 1.\<close>

definition demo_passport :: pydict where
  "demo_passport =
     (case issue_passport toy_lib Map.empty demo_seed demo_nonce ''a1'' ''s1'' demo_metrics
             60 100 100 of
        Inl e \<Rightarrow> Map.empty | Inr p \<Rightarrow> p)"

definition demo_passport_late :: pydict where
  "demo_passport_late =
     (case issue_passport toy_lib Map.empty demo_seed demo_nonce ''a1'' ''s1'' demo_metrics
             60 100 101 of
        Inl e \<Rightarrow> Map.empty | Inr p \<Rightarrow> p)"




section \<open>Properties of the lease manager\<close>

lemma demo_lease_fields:
  "dict_get demo_lease ''lease_id'' = PStr ''0123456789abcdef0123456789abcdef''"
  "dict_get demo_lease ''scope'' = PStr ''tool:x''"
  "dict_get_default demo_lease ''exp'' (PInt 0) = PInt 130"
  by (simp_all add: demo_lease_def issue_capability_lease_def dict_get_def
                    dict_get_default_def Let_def)

lemma demo_state_used: "used_leases demo_state = {}"
  by (simp add: demo_state_def issue_capability_lease_def lease_init_def Let_def)

lemma lease_step_used_mono: "used_leases st \<subseteq> used_leases (lease_step st op)"
  by (cases op)
     (auto simp: issue_capability_lease_def lease_valid_def revoke_lease_def
                 cleanup_expired_leases_def Let_def split: sum.splits)

lemma lease_run_used_mono: "used_leases st \<subseteq> used_leases (lease_run st ops)"
  unfolding lease_run_def
proof (induction ops arbitrary: st)
  case Nil
  show ?case by simp
next
  case (Cons op ops)
  have "used_leases st \<subseteq> used_leases (lease_step st op)"
    by (rule lease_step_used_mono)
  also have "\<dots> \<subseteq> used_leases (foldl lease_step (lease_step st op) ops)"
    by (rule Cons.IH)
  finally show ?case by simp
qed

lemma lease_valid_true_consumes:
  assumes "lease_valid st lease s True now = (Inr True, st')"
  shows "py_truthy (dict_get lease ''lease_id'') \<and> py_hashable (dict_get lease ''lease_id'')
         \<and> py_key (dict_get lease ''lease_id'') \<in> used_leases st'"
  using assms
  by (auto simp: lease_valid_def Let_def split: if_splits sum.splits)

lemma lease_valid_used_false:
  assumes "py_truthy (dict_get lease ''lease_id'')"
      and "py_hashable (dict_get lease ''lease_id'')"
      and "py_key (dict_get lease ''lease_id'') \<in> used_leases st"
  shows "lease_valid st lease s c now = (Inr False, st)"
  using assms by (simp add: lease_valid_def Let_def)

text \<open>
  C2. Once \<open>lease_valid\<close> with \<open>consume = True\<close> has returned \<open>True\<close> for a lease, every
  later call for a lease carrying the same \<open>lease_id\<close> returns \<open>False\<close>, whatever the
  scope, the \<open>consume\<close> flag, the time, and the calls made in between: the identifier is
  in the used-set and no function of the module removes it.
\<close>

theorem lease_replay_defense:
  assumes "lease_valid st L s True now = (Inr True, st')"
      and "dict_get L' ''lease_id'' = dict_get L ''lease_id''"
  shows "lease_valid (lease_run st' ops) L' s' c now' = (Inr False, lease_run st' ops)"
proof -
  from assms(1) have t: "py_truthy (dict_get L ''lease_id'')"
    and h: "py_hashable (dict_get L ''lease_id'')"
    and u: "py_key (dict_get L ''lease_id'') \<in> used_leases st'"
    using lease_valid_true_consumes by blast+
  from u lease_run_used_mono have "py_key (dict_get L ''lease_id'') \<in> used_leases (lease_run st' ops)"
    by blast
  with t h assms(2) show ?thesis
    by (simp add: lease_valid_used_false)
qed

theorem lease_replay_defense_witness:
  "fst (lease_valid demo_state demo_lease ''tool:x'' True 101) = Inr True
   \<and> lease_valid
        (lease_run (snd (lease_valid demo_state demo_lease ''tool:x'' True 101))
           [OpCleanup 200, OpRevoke ''ff''])
        demo_lease ''tool:y'' False 102
      = (Inr False,
         lease_run (snd (lease_valid demo_state demo_lease ''tool:x'' True 101))
           [OpCleanup 200, OpRevoke ''ff''])"
proof -
  have a: "fst (lease_valid demo_state demo_lease ''tool:x'' True 101) = Inr True"
    by (simp add: lease_valid_def demo_lease_fields demo_state_used Let_def)
  then have b: "lease_valid demo_state demo_lease ''tool:x'' True 101
                = (Inr True, snd (lease_valid demo_state demo_lease ''tool:x'' True 101))"
    by (simp add: prod_eq_iff)
  show ?thesis
    using a lease_replay_defense [OF b refl] by simp
qed

text \<open>
  C6. For a lease that is unexpired (the clock has not passed \<open>exp\<close>), unconsumed (its
  identifier is not in the used-set) and of scope \<open>s\<close>, a call of \<open>lease_valid\<close> with
  another scope \<open>s'\<close> and \<open>consume = True\<close> returns \<open>False\<close> and leaves the module state,
  used-set included, as it was; the call with scope \<open>s\<close> that follows returns \<open>True\<close>.
\<close>

theorem wrong_scope_no_consume:
  assumes "py_truthy (dict_get L ''lease_id'')"
      and "py_hashable (dict_get L ''lease_id'')"
      and "py_key (dict_get L ''lease_id'') \<notin> used_leases st"
      and "py_int (dict_get_default L ''exp'' (PInt 0)) = Inr e"
      and "now \<le> e" and "now' \<le> e"
      and "dict_get L ''scope'' = PStr s"
      and "s' \<noteq> s"
  shows "lease_valid st L s' True now = (Inr False, st)
         \<and> fst (lease_valid st L s True now') = Inr True"
  using assms by (simp add: lease_valid_def Let_def)

theorem wrong_scope_no_consume_witness:
  "lease_valid demo_state demo_lease ''tool:y'' True 101 = (Inr False, demo_state)
   \<and> fst (lease_valid demo_state demo_lease ''tool:x'' True 101) = Inr True"
  using wrong_scope_no_consume [of demo_lease demo_state 130 101 101 "''tool:x''" "''tool:y''"]
  by (simp add: demo_lease_fields demo_state_used)

section \<open>Properties of the JWKS cache\<close>

lemma jwks_invalid_body:
  assumes "d \<noteq> []" and "\<not> cache_fresh c now" and "\<not> has_keys_array j"
  shows "\<exists>e. jwks d c now (Body j) = (Inl e, c, [LogDebug, LogError])"
  using assms by (cases j) (auto simp: jwks_def split: option.splits)

text \<open>
  C9. When the domain is configured and the cache is not fresh, so that the fetch is
  attempted: if the request fails with an HTTP or network error and the cache holds
  keys, the cached keys are returned and a warning is logged; if it fails and the cache
  is empty, the error is raised; and a body that is not an object with a \<^verbatim>\<open>keys\<close> array
  raises an error and leaves the cache as it was.
\<close>

theorem jwks_failure_semantics:
  assumes "d \<noteq> []" and "\<not> cache_fresh c now"
  shows "(py_truthy (cache_keys c) \<longrightarrow>
            jwks d c now HttpFails = (Inr (cache_keys c), c, [LogDebug, LogError, LogWarning]))
       \<and> (\<not> py_truthy (cache_keys c) \<longrightarrow>
            jwks d c now HttpFails = (Inl HTTPError, c, [LogDebug, LogError]))
       \<and> (\<not> has_keys_array j \<longrightarrow>
            (\<exists>e. fst (jwks d c now (Body j)) = Inl e) \<and> fst (snd (jwks d c now (Body j))) = c)"
proof (intro conjI impI)
  assume "\<not> has_keys_array j"
  with assms obtain e where "jwks d c now (Body j) = (Inl e, c, [LogDebug, LogError])"
    using jwks_invalid_body by blast
  then show "\<exists>e. fst (jwks d c now (Body j)) = Inl e"
    and "fst (snd (jwks d c now (Body j))) = c" by simp_all
qed (use assms in \<open>simp_all add: jwks_def\<close>)

theorem jwks_failure_semantics_witness:
  "jwks ''idp.example'' warm_cache 2000 HttpFails
     = (Inr (cache_keys warm_cache), warm_cache, [LogDebug, LogError, LogWarning])
   \<and> jwks ''idp.example'' JWKS_CACHE_init 2000 HttpFails
     = (Inl HTTPError, JWKS_CACHE_init, [LogDebug, LogError])
   \<and> (\<exists>e. fst (jwks ''idp.example'' warm_cache 2000 (Body (PDict [(KStr ''nokeys'', PNone)]))) = Inl e)
   \<and> fst (snd (jwks ''idp.example'' warm_cache 2000 (Body (PDict [(KStr ''nokeys'', PNone)]))))
       = warm_cache"
proof -
  have a: "\<not> cache_fresh warm_cache 2000" "py_truthy (cache_keys warm_cache)"
    by (simp_all add: cache_fresh_def warm_cache_def)
  have b: "\<not> cache_fresh JWKS_CACHE_init 2000" "\<not> py_truthy (cache_keys JWKS_CACHE_init)"
    by (simp_all add: cache_fresh_def JWKS_CACHE_init_def)
  have c: "\<not> has_keys_array (PDict [(KStr ''nokeys'', PNone)])" by simp
  have d: "''idp.example'' \<noteq> []" by simp
  show ?thesis
    using jwks_failure_semantics [OF d a(1), of "PDict [(KStr ''nokeys'', PNone)]"]
          jwks_failure_semantics [OF d b(1), of PNone] a(2) b(2) c
    by blast
qed

section \<open>The key of the metrics commitment\<close>

lemma metrics_key_33_zeros: "metrics_key (replicate 33 (CHR ''0'')) = Inl ValueError"
  by code_simp

lemma metrics_key_32_zeros: "metrics_key (replicate 32 (CHR ''0'')) = Inr (replicate 16 (CHR 0x00))"
  by code_simp

text \<open>
  C8. A secret of 33 characters \<^verbatim>\<open>0\<close> consists of hexadecimal characters only and is
  at least 32 long, so \<open>hmac_metrics\<close> hands it to \<^verbatim>\<open>bytes.fromhex\<close>, which rejects an
  odd number of digits: the call raises \<^verbatim>\<open>ValueError\<close> instead of returning a digest.
\<close>

theorem hmac_metrics_odd_hex_raises:
  "hmac_metrics L (replicate 33 (CHR ''0'')) (PDict []) = Inl ValueError"
  using metrics_key_33_zeros
  by (simp add: hmac_metrics_def keys_sortable_def sort_items_def)

section \<open>Key loading at startup\<close>




lemma components_default:
  "components ''keys'' = [''keys'']"
  "components ''keys/ed25519.key'' = [''keys'', ''ed25519.key'']"
  by code_simp+

lemma makedirs_keys:
  "posix_makedirs empty_fs ''keys'' = (None, empty_fs\<lparr>dirs := {[''keys'']}\<rparr>)"
  by (simp add: posix_makedirs_def components_default prefixes_of_def is_file_def empty_fs_def)








text \<open>Two configurations in which no key is generated although none exists: with a
  \<^verbatim>\<open>KEY_PATH\<close> that names the directory itself the directory made by \<^verbatim>\<open>os.makedirs\<close> is
  found and opened, and with a \<^verbatim>\<open>KEY_PATH\<close> without a directory part \<^verbatim>\<open>os.makedirs('')\<close>
  raises.\<close>

lemma key_path_is_directory:
  "fst (ensure_keypair toy_lib posix_os ''keys/'' demo_seed empty_fs) = Inl IsADirectoryError"
proof -
  have "dirname ''keys/'' = ''keys''" "components ''keys/'' = [''keys'']"
    by code_simp+
  then show ?thesis
    by (simp add: ensure_keypair_def posix_os_def makedirs_keys posix_exists_def posix_read_def
                  is_dir_def)
qed

lemma key_path_without_directory:
  "fst (ensure_keypair toy_lib posix_os ''ed25519.key'' demo_seed empty_fs) = Inl FileNotFoundError"
proof -
  have "dirname ''ed25519.key'' = []"
    by code_simp
  then show ?thesis
    by (simp add: ensure_keypair_def posix_os_def posix_makedirs_def)
qed

section \<open>Passports: issuance\<close>

lemma issue_passport_fields:
  assumes "issue_passport L env seed nonce a s m ttl now1 now2 = Inr p"
  shows "dict_get p ''exp'' = PInt (now1 + ttl) \<and> dict_get p ''issued_at'' = PInt now2
         \<and> dict_get p ''ttl_s_original'' = PInt ttl"
  using assms
  by (auto simp: issue_passport_def dict_get_def Let_def split: sum.splits prod.splits)

text \<open>
  C4. \<open>issue_passport\<close> reads the clock twice: \<open>exp\<close> is the first reading plus the
  time to live, \<open>issued_at\<close> is the second reading. When the second reading is later than
  the first, \<open>exp\<close> differs from \<open>issued_at + ttl_s_original\<close>.
\<close>

theorem issue_passport_clock_reads:
  assumes "issue_passport L env seed nonce a s m ttl now1 now2 = Inr p"
  shows "dict_get p ''exp'' = PInt (now1 + ttl) \<and> dict_get p ''issued_at'' = PInt now2
         \<and> dict_get p ''ttl_s_original'' = PInt ttl"
  using assms by (rule issue_passport_fields)

lemma demo_issue_late:
  "issue_passport toy_lib Map.empty demo_seed demo_nonce ''a1'' ''s1'' demo_metrics 60 100 101
     = Inr demo_passport_late"
proof -
  have "\<exists>p. issue_passport toy_lib Map.empty demo_seed demo_nonce ''a1'' ''s1'' demo_metrics
               60 100 101 = Inr p"
    by (simp add: issue_passport_def load_keys_def env_missing_def getenv_default_def
          SigningKey_def demo_seed_def hmac_commit_def pack_message_def demo_metrics_def
          keys_sortable_def with_key_def Let_def split: sum.splits)
  then show ?thesis by (auto simp: demo_passport_late_def)
qed

theorem issue_passport_clock_reads_witness:
  "dict_get demo_passport_late ''exp'' = PInt 160
   \<and> dict_get demo_passport_late ''issued_at'' = PInt 101
   \<and> dict_get demo_passport_late ''ttl_s_original'' = PInt 60
   \<and> (160::int) \<noteq> 101 + 60"
  using issue_passport_clock_reads [OF demo_issue_late] by simp

section \<open>Revocation in the Authy service\<close>

lemma demo_token_verifies:
  "verify_compact toy_lib demo_token demo_seed = Inr (demo_header, demo_payload)"
  by code_simp

lemma revocations_step:
  assumes "k \<in> dom (revocations st)"
  shows "k \<in> dom (revocations (authy_step L env ttl sk vk st op))"
  using assms
  by (cases op)
     (auto simp: issue_def revoke_def revoke_jti_def save_passport_def Let_def
           split: sum.splits option.splits prod.splits if_splits)

lemma revocations_run:
  assumes "k \<in> dom (revocations st)"
  shows "k \<in> dom (revocations (authy_run L env ttl sk vk st ops))"
  using assms unfolding authy_run_def
proof (induction ops arbitrary: st)
  case Nil
  then show ?case by simp
next
  case (Cons op ops)
  from Cons.prems have "k \<in> dom (revocations (authy_step L env ttl sk vk st op))"
    by (rule revocations_step)
  then show ?case using Cons.IH by simp
qed

lemma revoke_records:
  assumes "revoke L vk st req t0 = (Inr (PStr J), st1)" and "sql_text L (PStr J) = Some J"
  shows "J \<in> dom (revocations st1)"
  using assms
  by (auto simp: revoke_def revoke_jti_def Let_def split: sum.splits option.splits if_splits prod.splits)

lemma demo_payload_fields:
  "pv_get demo_payload ''exp'' (PInt 0) = Inr (PInt 100)"
  "pv_get demo_payload ''jti'' PNone = Inr (PStr ''J1'')"
  by (simp_all add: demo_payload_def)

lemma toy_sql_text: "sql_text toy_lib (PStr s) = Some s"
  by (simp add: toy_lib_def base_lib_def)

lemma revoke_J1_done:
  "revoke toy_lib demo_seed authy_init revoke_J1 50
     = (Inr (PStr ''J1''), snd (revoke toy_lib demo_seed authy_init revoke_J1 50))"
  by (simp add: revoke_def revoke_J1_def opt_str_def revoke_jti_def toy_sql_text Let_def)

text \<open>
  C3, as stated, fails on the code: \<open>verify\<close> checks the expiry before the ledger, so a
  verify of a revoked token after its \<open>exp\<close> answers \<^verbatim>\<open>expired\<close>, not \<^verbatim>\<open>revoked\<close>.
\<close>

theorem revoked_then_expired_reason:
  "verify toy_lib demo_seed (snd (revoke toy_lib demo_seed authy_init revoke_J1 50)) demo_token 101
     = Inr (invalid_resp toy_lib Expired)
   \<and> v_reason (invalid_resp toy_lib Expired) = Some ''expired''
   \<and> ''expired'' \<noteq> ''revoked''"
  by (simp add: verify_def demo_token_verifies demo_payload_fields invalid_resp_def reason_text_def)

text \<open>
  C3, amended. For a token that \<open>verify_compact\<close> accepts and whose payload carries the
  identifier \<open>J\<close>: once a revoke of \<open>J\<close> has completed, every later verify of the token,
  after any further requests, returns \<open>valid = False\<close>; the reason is \<^verbatim>\<open>revoked\<close> as long as
  the token has not expired and \<^verbatim>\<open>expired\<close> afterwards. The ledger is consulted before
  any answer with \<open>valid = True\<close>.
\<close>

theorem revoked_token_never_valid:
  assumes "verify_compact L token vk = Inr (header, payload)"
      and "pv_get payload ''exp'' (PInt 0) = Inr ev"
      and "py_lt_int ev now = Inr expired"
      and "pv_get payload ''jti'' PNone = Inr (PStr J)" and "J \<noteq> []"
      and "sql_text L (PStr J) = Some J"
      and "revoke L vk st req t0 = (Inr (PStr J), st1)"
  shows "verify L vk (authy_run L env ttl sk vk st1 ops) token now
           = Inr (invalid_resp L (if expired then Expired else Revoked))"
proof -
  have "J \<in> dom (revocations st1)"
    using assms(7,6) by (rule revoke_records)
  then have "J \<in> dom (revocations (authy_run L env ttl sk vk st1 ops))"
    by (rule revocations_run)
  then have "revocations (authy_run L env ttl sk vk st1 ops) J \<noteq> None"
    by blast
  then show ?thesis
    using assms(1-6) by (simp add: verify_def is_revoked_def)
qed

theorem revoked_token_never_valid_witness:
  "verify toy_lib demo_seed
     (authy_run toy_lib Map.empty 60 demo_seed demo_seed
        (snd (revoke toy_lib demo_seed authy_init revoke_J1 50))
        [ReqVerify demo_token 55, ReqRevoke \<lparr>rv_token = None, rv_jti = Some ''J2'', rv_reason = None\<rparr> 56])
     demo_token 60
   = Inr (invalid_resp toy_lib Revoked)
   \<and> v_reason (invalid_resp toy_lib Revoked) = Some ''revoked''"
proof -
  have e: "py_lt_int (PInt 100) 60 = Inr False" by simp
  have n: "''J1'' \<noteq> []" by simp
  show ?thesis
    using revoked_token_never_valid [OF demo_token_verifies demo_payload_fields(1) e
            demo_payload_fields(2) n toy_sql_text revoke_J1_done]
    by (simp add: invalid_resp_def reason_text_def)
qed

section \<open>Passports: verification of issued passports\<close>

lemma collect_Inl:
  "collect xs = Inl e \<Longrightarrow> Inl e \<in> set xs"
  by (induction xs) (auto split: sum.splits)

lemma json_dumps_raises_TypeError:
  "json_dumps L v = Inl e \<Longrightarrow> e = TypeError"
proof (induction L v arbitrary: e rule: json_dumps.induct)
  case (9 L xs)
  then obtain x where "x \<in> set xs" "json_dumps L x = Inl e"
    by (auto split: sum.splits dest!: collect_Inl)
  with 9 show ?case by blast
next
  case (10 L kvs)
  show ?case
  proof (cases "keys_sortable (map fst kvs)")
    case False
    with 10 show ?thesis by simp
  next
    case True
    with 10(2) obtain k v where "(k, v) \<in> set kvs" "json_dumps L v = Inl e"
      by (auto simp: with_key_def split: sum.splits dest!: collect_Inl)
    with 10(1) True show ?thesis by blast
  qed
qed simp_all

lemma hmac_commit_raises_TypeError:
  "hmac_commit L env m = Inl e \<Longrightarrow> e = TypeError"
  by (auto simp: hmac_commit_def split: sum.splits dest: json_dumps_raises_TypeError)

lemma load_keys_lengths:
  assumes "lib_ok L" and "load_keys L env seed = Inr (sk, vk)"
  shows "length sk = 32 \<and> length vk = 32"
  using assms
  by (auto simp: load_keys_def lib_ok_def SigningKey_def VerifyKey_def Let_def
           split: if_splits sum.splits)

lemma hmac_commit_ascii:
  "lib_ok L \<Longrightarrow> hmac_commit L env m = Inr c \<Longrightarrow> is_ascii c"
  by (auto simp: hmac_commit_def lib_ok_def split: sum.splits)

lemma verify_issued_passport:
  assumes ok: "lib_ok L"
      and keys: "load_keys L env seed = Inr (sk, vk)"
      and iss: "issue_passport L env seed nonce a s m ttl n1 n2 = Inr p"
  shows "\<exists>c msg. hmac_commit L env m = Inr c
           \<and> pack_message L (PStr a) (PStr s) (PStr c) (PInt ttl) (PStr nonce) = Inr msg
           \<and> (\<forall>a' s' m' now.
                 verify_passport L env p a' s' m' now
                   = Inr (now \<le> n1 + ttl \<and> hmac_commit L env m' = Inr c \<and> a' = a \<and> s' = s
                          \<and> ed_check L vk msg (ed_sign L sk msg)))"
proof -
  from iss keys obtain c msg where
    c: "hmac_commit L env m = Inr c"
    and msg: "pack_message L (PStr a) (PStr s) (PStr c) (PInt ttl) (PStr nonce) = Inr msg"
    and p: "p = [''agent_id'' \<mapsto> PStr a, ''session_id'' \<mapsto> PStr s, ''commitment'' \<mapsto> PStr c,
                 ''nonce'' \<mapsto> PStr nonce, ''sig_b64'' \<mapsto> PStr (b64encode L (ed_sign L sk msg)),
                 ''vk_b64'' \<mapsto> PStr (b64encode L vk), ''exp'' \<mapsto> PInt (n1 + ttl),
                 ''ttl_s_original'' \<mapsto> PInt ttl, ''issued_at'' \<mapsto> PInt n2]"
    by (auto simp: issue_passport_def Let_def split: sum.splits)
  from ok keys have len: "length sk = 32" "length vk = 32"
    using load_keys_lengths by blast+
  from ok len have siglen: "length (ed_sign L sk msg) = 64"
    by (simp add: lib_ok_def)
  from ok have b64: "\<And>b. b64decode L (b64encode L b) = Some b" "\<And>b. is_ascii (b64encode L b)"
    by (simp_all add: lib_ok_def)
  from ok c have cascii: "is_ascii c" by (rule hmac_commit_ascii)
  have fields:
    "dict_get_default p ''exp'' (PInt 0) = PInt (n1 + ttl)"
    "dict_get_default p ''commitment'' (PStr []) = PStr c"
    "dict_get p ''agent_id'' = PStr a"
    "dict_get p ''session_id'' = PStr s"
    "dict_get_default p ''ttl_s_original'' (PInt 60) = PInt ttl"
    "dict_index p ''commitment'' = Inr (PStr c)"
    "dict_index p ''nonce'' = Inr (PStr nonce)"
    "dict_index p ''vk_b64'' = Inr (PStr (b64encode L vk))"
    "dict_index p ''sig_b64'' = Inr (PStr (b64encode L (ed_sign L sk msg)))"
    by (simp_all add: p dict_get_def dict_get_default_def dict_index_def)
  have main: "verify_passport L env p a' s' m' now
                = Inr (now \<le> n1 + ttl \<and> hmac_commit L env m' = Inr c \<and> a' = a \<and> s' = s
                       \<and> ed_check L vk msg (ed_sign L sk msg))" for a' s' m' now
  proof (cases "hmac_commit L env m'")
    case (Inl e)
    then have "e = TypeError" by (rule hmac_commit_raises_TypeError)
    with Inl show ?thesis
      by (simp add: verify_passport_def verify_passport_try_def then_do_def fields caught_def)
  next
    case (Inr c')
    from ok Inr have "is_ascii c'" by (rule hmac_commit_ascii)
    with Inr cascii msg len siglen b64 show ?thesis
      by (auto simp: verify_passport_def verify_passport_try_def then_do_def fields caught_def
                     VerifyKey_def vk_verify_def)
  qed
  from c msg main show ?thesis by blast
qed

section \<open>Passports: the stand-in library and the example passports\<close>

lemma hex_digit_props:
  assumes "k < 16"
  shows "hex_val (hex_digit k) = Some k" and "\<not> is_ascii_space (hex_digit k)"
    and "(of_char (hex_digit k) :: nat) < 128"
  using assms
  by (auto simp: hex_digit_def hex_val_def is_ascii_space_def Let_def)

lemma fromhex_hexlify: "fromhex (hexlify b) = Some b"
proof (induction b)
  case Nil
  show ?case by (simp add: hexlify_def)
next
  case (Cons c cs)
  let ?n = "of_char c :: nat"
  have lt: "?n div 16 < 16" "?n mod 16 < 16"
    using nat_of_char_less_256 [of c] by (simp_all add: less_mult_imp_div_less)
  have h: "hexlify (c # cs) = hex_digit (?n div 16) # hex_digit (?n mod 16) # hexlify cs"
    by (simp add: hexlify_def)
  have "char_of (16 * (?n div 16) + ?n mod 16) = c"
    by simp
  with Cons lt show ?case
    by (simp add: h hex_digit_props del: char_of_nat)
qed

lemma is_ascii_hexlify: "is_ascii (hexlify b)"
proof (induction b)
  case Nil
  show ?case by (simp add: hexlify_def is_ascii_def)
next
  case (Cons c cs)
  let ?n = "of_char c :: nat"
  have lt: "?n div 16 < 16" "?n mod 16 < 16"
    using nat_of_char_less_256 [of c] by (simp_all add: less_mult_imp_div_less)
  from Cons have "is_ascii (hexlify cs)" .
  with lt show ?case
    by (simp add: hexlify_def is_ascii_def hex_digit_props)
qed

lemma is_ascii_take: "is_ascii xs \<Longrightarrow> is_ascii (take n xs)"
  unfolding is_ascii_def list_all_iff using set_take_subset by fast

lemma is_ascii_append: "is_ascii (xs @ ys) = (is_ascii xs \<and> is_ascii ys)"
  by (simp add: is_ascii_def)

lemma is_ascii_zeros: "is_ascii (replicate n (CHR ''0''))"
  by (simp add: is_ascii_def list_all_iff)

lemma lib_ok_toy: "lib_ok toy_lib"
  by (simp add: lib_ok_def toy_lib_def base_lib_def toy_sig_def fromhex_hexlify
                is_ascii_hexlify is_ascii_take is_ascii_append is_ascii_zeros min_def)

lemma toy_load_keys: "load_keys toy_lib Map.empty demo_seed = Inr (demo_seed, ed_public toy_lib demo_seed)"
  by (simp add: load_keys_def env_missing_def getenv_default_def SigningKey_def demo_seed_def)



lemma issue_defined:
  assumes "load_keys L env seed = Inr kp" and "json_dumps L m = Inr js"
  shows "\<exists>p. issue_passport L env seed nonce a s m ttl n1 n2 = Inr p"
  using assms
  by (cases kp)
     (simp add: issue_passport_def hmac_commit_def pack_message_def keys_sortable_def
                with_key_def Let_def split: sum.splits)

lemma demo_metrics_dumps: "\<exists>js. json_dumps L demo_metrics = Inr js"
  by (simp add: demo_metrics_def keys_sortable_def with_key_def)


lemma demo_issue:
  "issue_passport toy_lib Map.empty demo_seed demo_nonce ''a1'' ''s1'' demo_metrics 60 100 100
     = Inr demo_passport"
proof -
  from demo_metrics_dumps obtain js where "json_dumps toy_lib demo_metrics = Inr js" ..
  with toy_load_keys issue_defined
  have "\<exists>p. issue_passport toy_lib Map.empty demo_seed demo_nonce ''a1'' ''s1'' demo_metrics
               60 100 100 = Inr p"
    by blast
  then show ?thesis by (auto simp: demo_passport_def)
qed


lemma verify_issued_matching_keys:
  assumes ok: "lib_ok L"
      and keys: "load_keys L env seed = Inr (sk, ed_public L sk)"
      and iss: "issue_passport L env seed nonce a s m ttl n1 n2 = Inr p"
  shows "verify_passport L env p a' s' m' now
           = Inr (now \<le> n1 + ttl \<and> hmac_commit L env m' = hmac_commit L env m \<and> a' = a \<and> s' = s)"
proof -
  from verify_issued_passport [OF ok keys iss] obtain c msg where
    c: "hmac_commit L env m = Inr c"
    and v: "verify_passport L env p a' s' m' now
              = Inr (now \<le> n1 + ttl \<and> hmac_commit L env m' = Inr c \<and> a' = a \<and> s' = s
                     \<and> ed_check L (ed_public L sk) msg (ed_sign L sk msg))"
    by blast
  from ok keys have "length sk = 32" using load_keys_lengths by blast
  with ok have "ed_check L (ed_public L sk) msg (ed_sign L sk msg)"
    by (simp add: lib_ok_def)
  with v c show ?thesis by simp
qed

section \<open>Passports: expiry boundary and metric soundness\<close>

text \<open>
  C1. The expiry check of \<open>verify_passport\<close> is \<^verbatim>\<open>int(time.time()) > exp\<close>: at the second
  \<open>exp = t + ttl_s\<close> itself a passport is still accepted. For a passport issued with a
  matching key pair and verified with its own identifiers and metrics, the call at
  observation time \<open>t + ttl_s\<close> returns \<open>True\<close>, where the claim requires \<open>False\<close>. (By
  \<open>verify_issued_matching_keys\<close> the other conditions of the claim are as stated: the
  result is \<open>True\<close> exactly when the time is at most \<open>exp\<close>, the commitments agree and the
  identifiers match.)
\<close>

theorem verify_passport_at_exp:
  assumes "lib_ok L"
      and "load_keys L env seed = Inr (sk, ed_public L sk)"
      and "issue_passport L env seed nonce a s m ttl now1 now2 = Inr p"
  shows "verify_passport L env p a s m (now1 + ttl) = Inr True"
  using verify_issued_matching_keys [OF assms] by simp

theorem verify_passport_at_exp_witness:
  "dict_get demo_passport ''exp'' = PInt 160
   \<and> verify_passport toy_lib Map.empty demo_passport ''a1'' ''s1'' demo_metrics 160 = Inr True"
proof -
  have "dict_get demo_passport ''exp'' = PInt (100 + 60)"
    using issue_passport_fields [OF demo_issue] by simp
  then show ?thesis
    using verify_passport_at_exp [OF lib_ok_toy toy_load_keys demo_issue] by simp
qed




section \<open>Passports: verification of malformed input\<close>

text \<open>
  C10. A passport whose \<open>exp\<close> is the float infinity (what \<^verbatim>\<open>json.loads\<close> makes of
  \<^verbatim>\<open>Infinity\<close>) makes \<^verbatim>\<open>int()\<close> raise \<^verbatim>\<open>OverflowError\<close>, which is not among the exceptions
  that \<open>verify_passport\<close> catches: the call raises instead of returning \<open>False\<close>.
\<close>

theorem verify_passport_overflow:
  "verify_passport L env [''exp'' \<mapsto> PFloat FPosInf] agent_id session_id m now = Inl OverflowError"
  by (simp add: verify_passport_def verify_passport_try_def then_do_def dict_get_default_def caught_def)

lemma py_int_raises:
  "py_int v = Inl e \<Longrightarrow>
     e = TypeError \<or> e = ValueError
     \<or> (e = OverflowError \<and> (v = PFloat FPosInf \<or> v = PFloat FNegInf))"
  by (induction v rule: py_int.induct) (auto split: option.splits)

lemma pack_message_raises:
  "pack_message L a s c t n = Inl e \<Longrightarrow> e = TypeError"
  by (auto simp: pack_message_def simp del: json_dumps.simps split: sum.splits
           dest: json_dumps_raises_TypeError)

lemma py_b64decode_raises:
  "py_b64decode L v = Inl e \<Longrightarrow> e = TypeError \<or> e = ValueError"
  by (cases v) (auto split: if_splits option.splits)

lemma compare_digest_raises:
  "compare_digest a v = Inl e \<Longrightarrow> e = TypeError"
  by (cases v) (auto split: if_splits)

text \<open>That is the only way out: an exception leaves \<open>verify_passport\<close> only if it is
  the \<^verbatim>\<open>OverflowError\<close> of an infinite \<open>exp\<close>; every other defect of the passport
  gives \<open>False\<close>.\<close>

lemma verify_passport_only_overflow_escapes:
  assumes "verify_passport L env p a s m now = Inl e"
  shows "e = OverflowError
         \<and> (dict_get_default p ''exp'' (PInt 0) = PFloat FPosInf
            \<or> dict_get_default p ''exp'' (PInt 0) = PFloat FNegInf)"
proof -
  from assms obtain e' where
    t: "verify_passport_try L env p a s m now = Inl e'" and nc: "\<not> caught e'" and e: "e = e'"
    by (auto simp: verify_passport_def split: sum.splits if_splits)
  show ?thesis
  proof (cases "py_int (dict_get_default p ''exp'' (PInt 0))")
    case (Inl x)
    with t have "e' = x" by (simp add: verify_passport_try_def then_do_def)
    with Inl nc e py_int_raises [OF Inl] show ?thesis
      by (auto simp: caught_def)
  next
    case (Inr expv)
    with t have "caught e'"
      by (auto simp: verify_passport_try_def then_do_def caught_def dict_index_def VerifyKey_def
                     vk_verify_def
               split: sum.splits if_splits option.splits
               dest: hmac_commit_raises_TypeError compare_digest_raises pack_message_raises
                     py_b64decode_raises)
    with nc show ?thesis by simp
  qed
qed

end
